theory Spec2Isabelle
  imports Complex_Main "HOL-Library.AList" "HOL-Library.Sublist"
begin

section \<open>Data model (backend/models/project.py)\<close>

text \<open>
  A Python dict is an association list: lookup is \<open>map_of\<close>, the assignment
  \<open>d[k] = v\<close> is \<open>AList.update\<close> (an existing key keeps its position, a new key goes
  to the end, as in Python's insertion order), \<open>del d[k]\<close> is \<open>AList.delete\<close>.
  Strings are byte strings. Values of the \<open>config\<close> dict are JSON scalars.
\<close>

datatype jvalue = JStr string | JInt int | JNum real | JBool bool | JNull

text \<open>One entry of \<open>execution_status\<close>: \<open>{"status": .., "completed_at": .., "error": ..}\<close>.\<close>

record stage_status =
  status :: string
  completed_at :: "string option"
  error :: "string option"

record input_data_dict =
  seed_keywords :: "string list"
  target_audience :: string
  custom_instructions :: string

text \<open>
  A path is the list of its components (\<open>Path.parts\<close>); an absolute path starts with
  the component \<open>/\<close>. Components are opaque: a component is never split again.
\<close>

type_synonym path = "string list"

text \<open>
  \<open>config_data\<close> is the dict that \<open>save_config\<close> writes to \<open>config.json\<close>;
  a \<open>ContentProject\<close> object is that data together with \<open>project_path\<close>.
\<close>

record config_data =
  project_id :: string
  name :: string
  description :: string
  created_at :: string
  updated_at :: string
  config :: "(string \<times> jvalue) list"
  input_data :: input_data_dict
  execution_status :: "(string \<times> stage_status) list"
  output_files :: "(string \<times> string list) list"

record ContentProject = config_data +
  project_path :: "path option"

section \<open>Runtime: exceptions, paths, file system, clock\<close>

text \<open>
  Every \<open>raise\<close> of the source, and every failure of a library call that the source
  can meet, is a value of \<open>pyexn\<close>; \<open>exn_str\<close> is \<open>str(e)\<close>. \<open>PyException\<close> is the
  class \<open>Exception\<close> itself.
\<close>

datatype pyexn =
    FileNotFoundError string
  | FileExistsError string
  | NotADirectoryError string
  | IsADirectoryError string
  | OSError string
  | TypeError string
  | ValueError string
  | AttributeError string
  | TimeoutExpired string
  | PyException string

fun exn_str :: "pyexn \<Rightarrow> string" where
  "exn_str (FileNotFoundError m) = m"
| "exn_str (FileExistsError m) = m"
| "exn_str (NotADirectoryError m) = m"
| "exn_str (IsADirectoryError m) = m"
| "exn_str (OSError m) = m"
| "exn_str (TypeError m) = m"
| "exn_str (ValueError m) = m"
| "exn_str (AttributeError m) = m"
| "exn_str (TimeoutExpired m) = m"
| "exn_str (PyException m) = m"

fun join_slash :: "string list \<Rightarrow> string" where
  "join_slash [] = []"
| "join_slash [x] = x"
| "join_slash (x # y # r) = x @ ''/'' @ join_slash (y # r)"

text \<open>\<open>str(path)\<close>\<close>

definition path_str :: "path \<Rightarrow> string" where
  "path_str p =
     (case p of
        [] \<Rightarrow> ''.''
      | c # r \<Rightarrow> if c = ''/'' then ''/'' @ join_slash r else join_slash p)"

text \<open>\<open>p.name\<close>: the last component.\<close>

definition path_name :: "path \<Rightarrow> string" where
  "path_name p = (case rev p of [] \<Rightarrow> [] | n # r \<Rightarrow> n)"

definition os_error_text :: "string \<Rightarrow> path \<Rightarrow> string" where
  "os_error_text m p = m @ '': '' @ [CHR 0x27] @ path_str p @ [CHR 0x27]"

definition no_such_file :: "path \<Rightarrow> pyexn" where
  "no_such_file p = FileNotFoundError (os_error_text ''[Errno 2] No such file or directory'' p)"

definition file_exists_error :: "path \<Rightarrow> pyexn" where
  "file_exists_error p = FileExistsError (os_error_text ''[Errno 17] File exists'' p)"

definition not_a_directory :: "path \<Rightarrow> pyexn" where
  "not_a_directory p = NotADirectoryError (os_error_text ''[Errno 20] Not a directory'' p)"

definition is_a_directory :: "path \<Rightarrow> pyexn" where
  "is_a_directory p = IsADirectoryError (os_error_text ''[Errno 21] Is a directory'' p)"

text \<open>An error of \<open>os.rename\<close> names both paths: \<open>'src' -> 'dst'\<close>.\<close>

definition rename_error_text :: "string \<Rightarrow> path \<Rightarrow> path \<Rightarrow> string" where
  "rename_error_text m src dst =
     m @ '': '' @ [CHR 0x27] @ path_str src @ [CHR 0x27] @ '' -> ''
       @ [CHR 0x27] @ path_str dst @ [CHR 0x27]"

text \<open>
  What a file holds: the JSON that \<open>save_config\<close> dumps, the JSON of the \<open>config\<close> dict
  alone (\<open>settings.json\<close>), or any other text. \<open>json.load\<close> of the first gives the
  dumped dict back; a \<open>config.json\<close> that is not such a dict is \<open>Other\<close>.
\<close>

datatype file_content = ConfigJson config_data | SettingsJson "(string \<times> jvalue) list" | Other string

text \<open>
  The file system holds directories and regular files under absolute paths; the root
  always exists. Python leaves the order in which \<open>iterdir\<close> and \<open>glob\<close> give the entries
  of a directory to the file system; here a directory lists its directories first, then
  its files, each in the order of their creation. What is stated below about a listing
  is stated of directories with at most one entry, or does not depend on the order.
\<close>

record filesys =
  dirs :: "path list"
  files :: "(path \<times> file_content) list"

text \<open>
  The world outside the objects: the file system, the process's working directory, how
  often the clock and the UUID generator have been read, and two traces kept for
  stating properties: the progress notifications handed to the registered callbacks
  (project id, stage, progress, message) and the stage executors that were entered.
\<close>

record world =
  fs :: filesys
  cwd :: path
  ticks :: nat
  uuids :: nat
  notified :: "(string \<times> string \<times> real \<times> string) list"
  invoked :: "string list"

text \<open>
  What one run of a child process did: \<open>subprocess.run\<close> returns the exit code with
  the captured output, or raises (TimeoutExpired when the time limit passes).
\<close>

datatype proc_outcome = Exited int string string | Raised pyexn

text \<open>
  What the code cannot determine is a parameter: the readings of \<open>datetime.now().isoformat()\<close>
  and of \<open>str(uuid.uuid4())\<close>, what a child process (given the script, its working
  directory and the project whose configuration becomes its environment) returns and does
  to the file system, the text of the rewritten keyword research script, and the text of
  the placeholder brief computed from the keyword file.
\<close>

record externals =
  clock :: "nat \<Rightarrow> string"
  uuid4 :: "nat \<Rightarrow> string"
  run_process :: "path \<Rightarrow> path \<Rightarrow> ContentProject \<Rightarrow> filesys \<Rightarrow> proc_outcome \<times> filesys"
  rewrite_script :: "file_content \<Rightarrow> string list \<Rightarrow> string"
  brief_placeholder :: "ContentProject \<Rightarrow> pyexn + file_content \<Rightarrow> string"

definition now :: "externals \<Rightarrow> world \<Rightarrow> string \<times> world" where
  "now ext w = (clock ext (ticks w), w\<lparr>ticks := Suc (ticks w)\<rparr>)"

definition new_uuid :: "externals \<Rightarrow> world \<Rightarrow> string \<times> world" where
  "new_uuid ext w = (uuid4 ext (uuids w), w\<lparr>uuids := Suc (uuids w)\<rparr>)"

definition is_absolute :: "path \<Rightarrow> bool" where
  "is_absolute p = (case p of [] \<Rightarrow> False | c # r \<Rightarrow> c = ''/'')"

definition resolve :: "world \<Rightarrow> path \<Rightarrow> path" where
  "resolve w p = (if is_absolute p then p else cwd w @ p)"

definition is_dir_abs :: "filesys \<Rightarrow> path \<Rightarrow> bool" where
  "is_dir_abs f a = (a = [''/''] \<or> a \<in> set (dirs f))"

definition is_file_abs :: "filesys \<Rightarrow> path \<Rightarrow> bool" where
  "is_file_abs f a = (map_of (files f) a \<noteq> None)"

definition path_is_dir :: "world \<Rightarrow> path \<Rightarrow> bool" where
  "path_is_dir w p = is_dir_abs (fs w) (resolve w p)"

definition path_is_file :: "world \<Rightarrow> path \<Rightarrow> bool" where
  "path_is_file w p = is_file_abs (fs w) (resolve w p)"

definition path_exists :: "world \<Rightarrow> path \<Rightarrow> bool" where
  "path_exists w p = (path_is_dir w p \<or> path_is_file w p)"

text \<open>\<open>p.mkdir(exist_ok=True)\<close>\<close>

definition mkdir :: "world \<Rightarrow> path \<Rightarrow> pyexn + world" where
  "mkdir w p =
     (let a = resolve w p in
      if is_dir_abs (fs w) a then Inr w
      else if is_file_abs (fs w) a then Inl (file_exists_error p)
      else if is_dir_abs (fs w) (butlast a)
        then Inr (w\<lparr>fs := (fs w)\<lparr>dirs := dirs (fs w) @ [a]\<rparr>\<rparr>)
      else if is_file_abs (fs w) (butlast a) then Inl (not_a_directory p)
      else Inl (no_such_file p))"

text \<open>
  \<open>p.mkdir(parents=True, exist_ok=True)\<close>: the missing ancestors are created from the
  top, then the directory itself.
\<close>

fun make_ancestors :: "filesys \<Rightarrow> path \<Rightarrow> path list \<Rightarrow> pyexn + filesys" where
  "make_ancestors f p [] = Inr f"
| "make_ancestors f p (a # as) =
     (if is_dir_abs f a then make_ancestors f p as
      else if is_file_abs f a then Inl (not_a_directory p)
      else make_ancestors (f\<lparr>dirs := dirs f @ [a]\<rparr>) p as)"

definition mkdir_parents :: "world \<Rightarrow> path \<Rightarrow> pyexn + world" where
  "mkdir_parents w p =
     (let a = resolve w p in
      case make_ancestors (fs w) p (tl (prefixes (butlast a))) of
        Inl e \<Rightarrow> Inl e
      | Inr f \<Rightarrow> mkdir (w\<lparr>fs := f\<rparr>) p)"

text \<open>\<open>with open(p, 'w') as f: f.write(..)\<close>\<close>

definition write_file :: "world \<Rightarrow> path \<Rightarrow> file_content \<Rightarrow> pyexn + world" where
  "write_file w p c =
     (let a = resolve w p in
      if is_dir_abs (fs w) a then Inl (is_a_directory p)
      else if is_dir_abs (fs w) (butlast a)
        then Inr (w\<lparr>fs := (fs w)\<lparr>files := AList.update a c (files (fs w))\<rparr>\<rparr>)
      else if is_file_abs (fs w) (butlast a) then Inl (not_a_directory p)
      else Inl (no_such_file p))"

text \<open>\<open>with open(p, 'r') as f: f.read()\<close>\<close>

definition read_file :: "world \<Rightarrow> path \<Rightarrow> pyexn + file_content" where
  "read_file w p =
     (let a = resolve w p in
      case map_of (files (fs w)) a of
        Some c \<Rightarrow> Inr c
      | None \<Rightarrow> if is_dir_abs (fs w) a then Inl (is_a_directory p) else Inl (no_such_file p))"

text \<open>
  \<open>p.iterdir()\<close>: the entries of a directory, as paths below \<open>p\<close>, in the order of
  the model's file system (see above).
\<close>

definition entry_names :: "filesys \<Rightarrow> path \<Rightarrow> string list" where
  "entry_names f a = map last (filter (\<lambda>q. q \<noteq> [] \<and> butlast q = a) (dirs f @ map fst (files f)))"

definition iterdir :: "world \<Rightarrow> path \<Rightarrow> pyexn + path list" where
  "iterdir w p =
     (let a = resolve w p in
      if is_dir_abs (fs w) a then Inr (map (\<lambda>n. p @ [n]) (entry_names (fs w) a))
      else if is_file_abs (fs w) a then Inl (not_a_directory p)
      else Inl (no_such_file p))"

text \<open>\<open>p.unlink()\<close>\<close>

definition unlink :: "world \<Rightarrow> path \<Rightarrow> pyexn + world" where
  "unlink w p =
     (let a = resolve w p in
      if is_file_abs (fs w) a
        then Inr (w\<lparr>fs := (fs w)\<lparr>files := AList.delete a (files (fs w))\<rparr>\<rparr>)
      else if is_dir_abs (fs w) a then Inl (is_a_directory p)
      else Inl (no_such_file p))"

text \<open>\<open>os.chdir(p)\<close>\<close>

definition chdir :: "world \<Rightarrow> path \<Rightarrow> pyexn + world" where
  "chdir w p =
     (let a = resolve w p in
      if is_dir_abs (fs w) a then Inr (w\<lparr>cwd := a\<rparr>)
      else if is_file_abs (fs w) a then Inl (not_a_directory p)
      else Inl (no_such_file p))"

text \<open>
  \<open>src.rename(dst)\<close>: a regular file replaces a regular file at \<open>dst\<close>; a directory
  moves with everything below it, onto nothing or onto an empty directory.
\<close>

definition rebase :: "path \<Rightarrow> path \<Rightarrow> path \<Rightarrow> path" where
  "rebase s d q = (if prefix s q then d @ drop (length s) q else q)"

definition rename :: "world \<Rightarrow> path \<Rightarrow> path \<Rightarrow> pyexn + world" where
  "rename w src dst =
     (let s = resolve w src; d = resolve w dst; f = fs w;
          missing = FileNotFoundError
                      (rename_error_text ''[Errno 2] No such file or directory'' src dst)
      in
      if is_file_abs f s then
        (if s = d then Inr w
         else if is_dir_abs f d
           then Inl (IsADirectoryError (rename_error_text ''[Errno 21] Is a directory'' src dst))
         else if \<not> is_dir_abs f (butlast d) then Inl missing
         else (case map_of (files f) s of
                 None \<Rightarrow> Inl missing
               | Some c \<Rightarrow>
                   Inr (w\<lparr>fs := f\<lparr>files := AList.update d c (AList.delete s (files f))\<rparr>\<rparr>)))
      else if is_dir_abs f s then
        (if s = d then Inr w
         else if is_file_abs f d
           then Inl (NotADirectoryError (rename_error_text ''[Errno 20] Not a directory'' src dst))
         else if is_dir_abs f d \<and> entry_names f d \<noteq> []
           then Inl (OSError (rename_error_text ''[Errno 39] Directory not empty'' src dst))
         else if \<not> is_dir_abs f (butlast d) then Inl missing
         else if prefix s d
           then Inl (OSError (rename_error_text ''[Errno 22] Invalid argument'' src dst))
         else Inr (w\<lparr>fs := f\<lparr>dirs := map (rebase s d) (removeAll d (dirs f)),
                               files := map (\<lambda>(q, c). (rebase s d q, c)) (files f)\<rparr>\<rparr>))
      else Inl missing)"

text \<open>
  \<open>glob.glob(str(directory / pattern))\<close> for a pattern whose only wildcard is \<open>*\<close>:
  the entries of the directory whose name matches; a name that starts with a dot is not
  matched by a pattern that does not. The directory part is taken literally:
  \<open>glob.glob\<close> reads \<open>*\<close>, \<open>?\<close> and \<open>[\<close> in the name of the project's folder as
  wildcards too, so a project directory with such a character in its path is outside
  what this definition covers.
\<close>

fun wild_match :: "string \<Rightarrow> string \<Rightarrow> bool" where
  "wild_match [] [] = True"
| "wild_match [] (d # r) = False"
| "wild_match (c # p) [] = (c = CHR ''*'' \<and> wild_match p [])"
| "wild_match (c # p) (d # r) =
     (if c = CHR ''*'' then wild_match p (d # r) \<or> wild_match (c # p) r
      else c = d \<and> wild_match p r)"

definition glob_match :: "string \<Rightarrow> string \<Rightarrow> bool" where
  "glob_match pat n = (wild_match pat n \<and> (if take 1 n = ''.'' then take 1 pat = ''.'' else True))"

definition glob :: "world \<Rightarrow> path \<Rightarrow> string \<Rightarrow> path list" where
  "glob w directory pat =
     (if path_is_dir w directory
      then map (\<lambda>n. directory @ [n]) (filter (glob_match pat) (entry_names (fs w) (resolve w directory)))
      else [])"

text \<open>\<open>str(n)\<close> for a natural number.\<close>

fun str_nat :: "nat \<Rightarrow> string" where
  "str_nat n = (if n < 10 then [''0123456789'' ! n]
                else str_nat (n div 10) @ [''0123456789'' ! (n mod 10)])"

declare str_nat.simps [simp del]

section \<open>ContentProject (backend/models/project.py)\<close>

text \<open>
  \<open>str.lower\<close> on ASCII letters and \<open>str.replace\<close> of one character by another.
  Strings are byte strings here and bytes outside \<open>A..Z\<close> are left as they are; Python
  lowers capital letters outside ASCII as well, so a project name with such a letter is
  outside what \<open>lower\<close> covers.
\<close>

definition char_lower :: "char \<Rightarrow> char" where
  "char_lower c =
     (case map_of (zip ''ABCDEFGHIJKLMNOPQRSTUVWXYZ'' ''abcdefghijklmnopqrstuvwxyz'') c of
        None \<Rightarrow> c
      | Some l \<Rightarrow> l)"

definition lower :: "string \<Rightarrow> string" where
  "lower s = map char_lower s"

definition replace_char :: "char \<Rightarrow> char \<Rightarrow> string \<Rightarrow> string" where
  "replace_char a b s = map (\<lambda>c. if c = a then b else c) s"

text \<open>The constructor: \<open>project_id or str(uuid.uuid4())\<close>, two clock readings, the defaults.\<close>

definition default_config :: "(string \<times> jvalue) list" where
  "default_config =
     [(''target_location'', JStr ''India''),
      (''target_language'', JStr ''en''),
      (''serp_overlap_threshold'', JNum (3 / 10)),
      (''min_search_volume'', JInt 100),
      (''max_competition'', JNum (3 / 10)),
      (''content_generator'', JStr ''claude''),
      (''claude_model_preference'', JStr ''quality'')]"

definition pending_status :: stage_status where
  "pending_status = \<lparr>status = ''pending'', completed_at = None, error = None\<rparr>"

definition default_execution_status :: "(string \<times> stage_status) list" where
  "default_execution_status =
     [(''keyword_research'', pending_status),
      (''content_briefs'', pending_status),
      (''article_writing'', pending_status),
      (''social_media'', pending_status),
      (''youtube_scripts'', pending_status)]"

definition default_output_files :: "(string \<times> string list) list" where
  "default_output_files =
     [(''keyword_research'', []),
      (''content_briefs'', []),
      (''articles'', []),
      (''social_media'', []),
      (''youtube'', [])]"

definition ContentProject_init ::
  "externals \<Rightarrow> world \<Rightarrow> string \<Rightarrow> string \<Rightarrow> string option \<Rightarrow> ContentProject \<times> world" where
  "ContentProject_init ext w name_arg description_arg project_id_arg =
     (let (pid, w1) =
            (case project_id_arg of
               None \<Rightarrow> new_uuid ext w
             | Some s \<Rightarrow> if s \<noteq> [] then (s, w) else new_uuid ext w);
          (t1, w2) = now ext w1;
          (t2, w3) = now ext w2
      in (\<lparr>project_id = pid, name = name_arg, description = description_arg,
           created_at = t1, updated_at = t2,
           config = default_config,
           input_data = \<lparr>seed_keywords = [], target_audience = [], custom_instructions = []\<rparr>,
           execution_status = default_execution_status,
           output_files = default_output_files,
           project_path = None\<rparr>, w3))"

definition slug :: "ContentProject \<Rightarrow> string" where
  "slug self = replace_char (CHR ''_'') (CHR ''-'') (replace_char (CHR '' '') (CHR ''-'') (lower (name self)))"

definition project_folder_name :: "ContentProject \<Rightarrow> string" where
  "project_folder_name self = ''project-'' @ take 8 (project_id self) @ ''-'' @ slug self"

text \<open>
  \<open>get_project_path\<close> stores the path it derives the first time it is asked. The
  folder name is one component of the path (a name with a slash in it, which Python
  would split, is outside what the model distinguishes).
\<close>

definition get_project_path :: "ContentProject \<Rightarrow> path \<Rightarrow> path \<times> ContentProject" where
  "get_project_path self base_projects_dir =
     (case project_path self of
        None \<Rightarrow> (let pp = base_projects_dir @ [project_folder_name self]
                 in (pp, self\<lparr>project_path := Some pp\<rparr>))
      | Some pp \<Rightarrow> (pp, self))"

text \<open>
  \<open>save_config\<close> catches every exception and returns False; the path derived on the
  way stays stored.
\<close>

definition save_config :: "ContentProject \<Rightarrow> world \<Rightarrow> bool \<times> ContentProject \<times> world" where
  "save_config self w =
     (let (pp, self1) = get_project_path self [''projects''] in
      case write_file w (pp @ [''config.json'']) (ConfigJson (config_data.truncate self1)) of
        Inl e \<Rightarrow> (False, self1, w)
      | Inr w1 \<Rightarrow> (True, self1, w1))"

definition keyword_lines :: "string list \<Rightarrow> string" where
  "keyword_lines ks = concat (map (\<lambda>k. k @ [CHR 0x0A]) ks)"

text \<open>\<open>save_inputs\<close>: files written before an exception stay written.\<close>

definition save_inputs :: "ContentProject \<Rightarrow> world \<Rightarrow> bool \<times> ContentProject \<times> world" where
  "save_inputs self w =
     (let (pp, self1) = get_project_path self [''projects''];
          inputs_dir = pp @ [''inputs''];
          r1 = (if seed_keywords (input_data self1) \<noteq> []
                then write_file w (inputs_dir @ [''seed_keywords.txt''])
                       (Other (keyword_lines (seed_keywords (input_data self1))))
                else Inr w)
      in case r1 of
           Inl e \<Rightarrow> (False, self1, w)
         | Inr w1 \<Rightarrow>
            (case write_file w1 (inputs_dir @ [''settings.json'']) (SettingsJson (config self1)) of
               Inl e \<Rightarrow> (False, self1, w1)
             | Inr w2 \<Rightarrow>
                (if custom_instructions (input_data self1) \<noteq> []
                 then (case write_file w2 (inputs_dir @ [''custom_instructions.md''])
                              (Other (custom_instructions (input_data self1))) of
                         Inl e \<Rightarrow> (False, self1, w2)
                       | Inr w3 \<Rightarrow> (True, self1, w3))
                 else (True, self1, w2))))"

definition subdirs :: "string list" where
  "subdirs = [''inputs'', ''stage_01_keyword_research'', ''stage_02_content_briefs'',
              ''stage_03_articles'', ''stage_04_social_media'', ''stage_05_youtube'', ''exports'']"

fun make_subdirs :: "world \<Rightarrow> path \<Rightarrow> string list \<Rightarrow> pyexn option \<times> world" where
  "make_subdirs w pp [] = (None, w)"
| "make_subdirs w pp (subdir # rest) =
     (case mkdir w (pp @ [subdir]) of
        Inl e \<Rightarrow> (Some e, w)
      | Inr w1 \<Rightarrow> make_subdirs w1 pp rest)"

text \<open>
  \<open>create_project_structure\<close>: an exception of a \<open>mkdir\<close> gives False (with the
  directories made so far left in place); the results of \<open>save_config\<close> and
  \<open>save_inputs\<close> are not looked at.
\<close>

definition create_project_structure ::
  "ContentProject \<Rightarrow> world \<Rightarrow> path \<Rightarrow> bool \<times> ContentProject \<times> world" where
  "create_project_structure self w base_projects_dir =
     (let (pp, self1) = get_project_path self base_projects_dir in
      case mkdir_parents w pp of
        Inl e \<Rightarrow> (False, self1, w)
      | Inr w1 \<Rightarrow>
         (case make_subdirs w1 pp subdirs of
            (Some e, w2) \<Rightarrow> (False, self1, w2)
          | (None, w2) \<Rightarrow>
             (let (ok1, self2, w3) = save_config self1 w2;
                  (ok2, self3, w4) = save_inputs self2 w3
              in (True, self3, w4))))"

text \<open>
  \<open>load_from_config\<close>: None when \<open>config.json\<close> is missing or is not the dumped dict;
  otherwise a constructed object with every field overwritten from the file.
\<close>

definition load_from_config ::
  "externals \<Rightarrow> world \<Rightarrow> path \<Rightarrow> ContentProject option \<times> world" where
  "load_from_config ext w pp =
     (if \<not> path_exists w (pp @ [''config.json'']) then (None, w)
      else case read_file w (pp @ [''config.json'']) of
             Inr (ConfigJson data) \<Rightarrow>
               (let (project, w1) =
                      ContentProject_init ext w (name data) (description data) (Some (project_id data))
                in (Some (project\<lparr>created_at := created_at data,
                                  updated_at := updated_at data,
                                  config := config data,
                                  input_data := input_data data,
                                  execution_status := execution_status data,
                                  output_files := output_files data,
                                  project_path := Some pp\<rparr>), w1))
           | _ \<Rightarrow> (None, w))"

text \<open>
  \<open>update_stage_status\<close>: \<open>if error:\<close> is true for a non-empty string only. The
  \<open>try\<close> cannot fail: \<open>save_config\<close> catches its own exceptions.
\<close>

definition truthy :: "string option \<Rightarrow> bool" where
  "truthy e = (case e of None \<Rightarrow> False | Some s \<Rightarrow> s \<noteq> [])"

definition update_stage_status ::
  "externals \<Rightarrow> ContentProject \<Rightarrow> world \<Rightarrow> string \<Rightarrow> string \<Rightarrow> string option
     \<Rightarrow> bool \<times> ContentProject \<times> world" where
  "update_stage_status ext self w stage new_status err =
     (case map_of (execution_status self) stage of
        None \<Rightarrow> (False, self, w)
      | Some entry \<Rightarrow>
         (let e1 = entry\<lparr>status := new_status\<rparr>;
              (e2, w1) = (if new_status = ''completed''
                          then (let (t, w') = now ext w in (e1\<lparr>completed_at := Some t\<rparr>, w'))
                          else (e1, w));
              e3 = (if truthy err then e2\<lparr>error := err\<rparr> else e2);
              (t2, w2) = now ext w1;
              self1 = self\<lparr>execution_status := AList.update stage e3 (execution_status self),
                           updated_at := t2\<rparr>;
              (ok, self2, w3) = save_config self1 w2
          in (True, self2, w3)))"

text \<open>\<open>add_output_file\<close>: a stage that is no key of \<open>output_files\<close> gives False.\<close>

definition add_output_file ::
  "externals \<Rightarrow> ContentProject \<Rightarrow> world \<Rightarrow> string \<Rightarrow> string \<Rightarrow> bool \<times> ContentProject \<times> world" where
  "add_output_file ext self w stage file_path =
     (case map_of (output_files self) stage of
        None \<Rightarrow> (False, self, w)
      | Some fls \<Rightarrow>
         (if file_path \<notin> set fls
          then (let (t, w1) = now ext w;
                    self1 = self\<lparr>output_files := AList.update stage (fls @ [file_path]) (output_files self),
                                 updated_at := t\<rparr>;
                    (ok, self2, w2) = save_config self1 w1
                in (True, self2, w2))
          else (True, self, w)))"

text \<open>
  \<open>get_stage_files\<close>: the regular files of the stage's directory, by its own table;
  listing a path that is not a directory raises.
\<close>

definition stage_map :: "(string \<times> string) list" where
  "stage_map =
     [(''keyword_research'', ''stage_01_keyword_research''),
      (''content_briefs'', ''stage_02_content_briefs''),
      (''articles'', ''stage_03_articles''),
      (''social_media'', ''stage_04_social_media''),
      (''youtube'', ''stage_05_youtube'')]"

definition get_stage_files ::
  "ContentProject \<Rightarrow> world \<Rightarrow> string \<Rightarrow> (pyexn + string list) \<times> ContentProject" where
  "get_stage_files self w stage =
     (case map_of stage_map stage of
        None \<Rightarrow> (Inr [], self)
      | Some d \<Rightarrow>
         (let (pp, self1) = get_project_path self [''projects''];
              stage_dir = pp @ [d]
          in if path_exists w stage_dir
             then (case iterdir w stage_dir of
                     Inr entries \<Rightarrow> (Inr (map path_str (filter (path_is_file w) entries)), self1)
                   | Inl e \<Rightarrow> (Inl e, self1))
             else (Inr [], self1)))"

section \<open>Dependency check (backend/core/pipeline_executor.py)\<close>

text \<open>The table \<open>stage_dependencies\<close> of \<open>can_execute_stage\<close>, with \<open>.get(stage, [])\<close>.\<close>

definition stage_dependencies :: "(string \<times> string list) list" where
  "stage_dependencies =
     [(''keyword_research'', []),
      (''content_briefs'', [''keyword_research'']),
      (''article_writing'', [''keyword_research'', ''content_briefs'']),
      (''social_media'', [''keyword_research'', ''content_briefs'', ''article_writing'']),
      (''youtube_scripts'', [''keyword_research'', ''content_briefs'', ''article_writing''])]"

definition dependencies_of :: "string \<Rightarrow> string list" where
  "dependencies_of stage =
     (case map_of stage_dependencies stage of None \<Rightarrow> [] | Some ds \<Rightarrow> ds)"

text \<open>\<open>project.execution_status.get(stage, {}).get("status", "pending")\<close>\<close>

definition status_or_pending :: "ContentProject \<Rightarrow> string \<Rightarrow> string" where
  "status_or_pending project stage =
     (case map_of (execution_status project) stage of
        None \<Rightarrow> ''pending''
      | Some s \<Rightarrow> status s)"

text \<open>
  The other two readings of \<open>get_stage_status\<close>:
  \<open>project.execution_status.get(stage, {}).get("completed_at")\<close> and
  \<open>project.execution_status.get(stage, {}).get("error")\<close>; and the test
  \<open>stage in project.execution_status\<close>.
\<close>

definition completed_at_of :: "ContentProject \<Rightarrow> string \<Rightarrow> string option" where
  "completed_at_of project stage =
     (case map_of (execution_status project) stage of
        None \<Rightarrow> None
      | Some s \<Rightarrow> completed_at s)"

definition error_of :: "ContentProject \<Rightarrow> string \<Rightarrow> string option" where
  "error_of project stage =
     (case map_of (execution_status project) stage of
        None \<Rightarrow> None
      | Some s \<Rightarrow> error s)"

definition has_stage :: "ContentProject \<Rightarrow> string \<Rightarrow> bool" where
  "has_stage project stage = (map_of (execution_status project) stage \<noteq> None)"

text \<open>The loop over the dependencies returns at the first one that is not completed.\<close>

fun check_dependencies :: "ContentProject \<Rightarrow> string list \<Rightarrow> bool \<times> string" where
  "check_dependencies project [] = (True, ''Dependencies satisfied'')"
| "check_dependencies project (dep_stage # rest) =
     (let dep_status = status_or_pending project dep_stage in
      if dep_status \<noteq> ''completed''
      then (False, ''Dependency '' @ dep_stage @ '' not completed (status: '' @ dep_status @ '')'')
      else check_dependencies project rest)"

definition can_execute_stage :: "ContentProject \<Rightarrow> string \<Rightarrow> bool \<times> string" where
  "can_execute_stage project stage = check_dependencies project (dependencies_of stage)"

section \<open>ScriptExecutor (backend/core/script_executor.py)\<close>

text \<open>
  A progress callback is a function on the world. \<open>Path(None)\<close> raises TypeError.
  Each method catches every exception, reports it with progress -1 and returns False;
  what was done before the exception stays done.
\<close>

definition path_of_none :: pyexn where
  "path_of_none = TypeError ''expected str, bytes or os.PathLike object, not NoneType''"

definition kr_output_files :: "string list" where
  "kr_output_files = [''stage_01_keyword_research/keyword_clusters.csv'',
                      ''stage_01_keyword_research/cluster_summary.csv'']"

text \<open>
  The \<open>try\<close> body of \<open>execute_keyword_research\<close>: \<open>Inl\<close> is an exception on its way to
  the handler, \<open>Inr\<close> the returned boolean.
\<close>

definition keyword_research_body ::
  "externals \<Rightarrow> path \<Rightarrow> ContentProject \<Rightarrow> (real \<Rightarrow> string \<Rightarrow> world \<Rightarrow> world) \<Rightarrow> world
     \<Rightarrow> (pyexn + bool) \<times> ContentProject \<times> world" where
  "keyword_research_body ext scripts_dir project progress_callback w =
     (let w1 = progress_callback 10 ''Setting up keyword research...'' w in
      case project_path project of
        None \<Rightarrow> (Inl path_of_none, project, w1)
      | Some project_dir \<Rightarrow>
         (let output_dir = project_dir @ [''stage_01_keyword_research''] in
          case mkdir w1 output_dir of
            Inl e \<Rightarrow> (Inl e, project, w1)
          | Inr w2 \<Rightarrow>
             (let kws = seed_keywords (input_data project) in
              if kws = [] then (Inl (ValueError ''No seed keywords found in project''), project, w2)
              else
               (let w3 = progress_callback 20
                           (''Processing '' @ str_nat (length kws) @ '' seed keywords...'') w2;
                    w4 = progress_callback 30 ''Creating modified script for project...'' w3
                in case read_file w4 (scripts_dir @ [''KeywordResearcher.py'']) of
                     Inl e \<Rightarrow> (Inl e, project, w4)
                   | Inr original \<Rightarrow>
                      (let temp_script = output_dir @ [''keyword_research_temp.py''] in
                       case write_file w4 temp_script (Other (rewrite_script ext original kws)) of
                         Inl e \<Rightarrow> (Inl e, project, w4)
                       | Inr w5 \<Rightarrow>
                          (let w6 = progress_callback 40 ''Executing keyword research script...'' w5;
                               (outcome, f) = run_process ext temp_script (resolve w6 output_dir) project (fs w6);
                               w7 = w6\<lparr>fs := f\<rparr>
                           in case outcome of
                                Raised e \<Rightarrow> (Inl e, project, w7)
                              | Exited returncode out err \<Rightarrow>
                                 (let w8 = progress_callback 80 ''Processing results...'' w7 in
                                  if returncode \<noteq> 0 then (Inr False, project, w8)
                                  else if \<not> path_exists w8 (output_dir @ [''keyword_clusters.csv''])
                                        \<or> \<not> path_exists w8 (output_dir @ [''cluster_summary.csv''])
                                    then (Inr False, project, w8)
                                  else
                                   (let project1 = project\<lparr>output_files :=
                                          AList.update ''keyword_research'' kr_output_files
                                            (output_files project)\<rparr>;
                                        w9 = progress_callback 100
                                               ''Keyword research completed successfully!'' w8
                                    in if path_exists w9 temp_script
                                       then (case unlink w9 temp_script of
                                               Inl e \<Rightarrow> (Inl e, project1, w9)
                                             | Inr w10 \<Rightarrow> (Inr True, project1, w10))
                                       else (Inr True, project1, w9)))))))))"

definition execute_keyword_research ::
  "externals \<Rightarrow> path \<Rightarrow> ContentProject \<Rightarrow> (real \<Rightarrow> string \<Rightarrow> world \<Rightarrow> world) \<Rightarrow> world
     \<Rightarrow> bool \<times> ContentProject \<times> world" where
  "execute_keyword_research ext scripts_dir project progress_callback w =
     (case keyword_research_body ext scripts_dir project progress_callback w of
        (Inr b, project1, w1) \<Rightarrow> (b, project1, w1)
      | (Inl e, project1, w1) \<Rightarrow>
          (False, project1, progress_callback (- 1) (''Error: '' @ exn_str e) w1))"

definition article_brief_body ::
  "externals \<Rightarrow> ContentProject \<Rightarrow> (real \<Rightarrow> string \<Rightarrow> world \<Rightarrow> world) \<Rightarrow> world
     \<Rightarrow> (pyexn + bool) \<times> ContentProject \<times> world" where
  "article_brief_body ext project progress_callback w =
     (let w1 = progress_callback 10 ''Setting up article brief generation...'' w in
      case project_path project of
        None \<Rightarrow> (Inl path_of_none, project, w1)
      | Some project_dir \<Rightarrow>
         (let keyword_file = project_dir @ [''stage_01_keyword_research'', ''keyword_clusters.csv''] in
          if \<not> path_exists w1 keyword_file
          then (Inr False, project,
                progress_callback (- 1) ''Keyword research must be completed first'' w1)
          else
           (let output_dir = project_dir @ [''stage_02_content_briefs''] in
            case mkdir w1 output_dir of
              Inl e \<Rightarrow> (Inl e, project, w1)
            | Inr w2 \<Rightarrow>
               (let w3 = progress_callback 50 ''Generating article brief...'' w2;
                    brief_content = brief_placeholder ext project (read_file w3 keyword_file)
                in case write_file w3 (output_dir @ [''article_brief.md'']) (Other brief_content) of
                     Inl e \<Rightarrow> (Inl e, project, w3)
                   | Inr w4 \<Rightarrow>
                      (let project1 = project\<lparr>output_files :=
                             AList.update ''content_briefs'' [''stage_02_content_briefs/article_brief.md'']
                               (output_files project)\<rparr>;
                           w5 = progress_callback 100 ''Article brief generated successfully!'' w4
                       in (Inr True, project1, w5))))))"

definition execute_article_brief ::
  "externals \<Rightarrow> ContentProject \<Rightarrow> (real \<Rightarrow> string \<Rightarrow> world \<Rightarrow> world) \<Rightarrow> world
     \<Rightarrow> bool \<times> ContentProject \<times> world" where
  "execute_article_brief ext project progress_callback w =
     (case article_brief_body ext project progress_callback w of
        (Inr b, project1, w1) \<Rightarrow> (b, project1, w1)
      | (Inl e, project1, w1) \<Rightarrow>
          (False, project1, progress_callback (- 1) (''Error: '' @ exn_str e) w1))"

section \<open>PipelineExecutor (backend/core/pipeline_executor.py)\<close>

datatype script_entry = SName string | SList "string list"

definition stage_scripts :: "(string \<times> (string \<times> script_entry) list) list" where
  "stage_scripts =
     [(''keyword_research'',
        [(''script'', SName ''KeywordResearcher.py''),
         (''description'', SName ''Keyword clustering and SERP analysis''),
         (''outputs'', SList [''keyword_clusters.csv'', ''cluster_summary.csv''])]),
      (''content_briefs'',
        [(''openai'', SName ''ArticleBrief.py''),
         (''claude'', SName ''ArticleBrief_Claude.py''),
         (''description'', SName ''Content outline generation with competitive analysis''),
         (''outputs'', SList [''article_briefs.json'', ''article_briefs.md''])]),
      (''article_writing'',
        [(''openai'', SName ''ArticleWriter.py''),
         (''claude'', SName ''ArticleWriter_Claude.py''),
         (''description'', SName ''Article generation and writing''),
         (''outputs'', SList [''article_draft.json'', ''article_draft.md''])]),
      (''social_media'',
        [(''openai'', SName ''SocialMedia.py''),
         (''claude'', SName ''SocialMedia_Claude.py''),
         (''description'', SName ''Multi-platform social media content creation''),
         (''outputs'', SList [''social_posts.json'', ''social_posts.md''])]),
      (''youtube_scripts'',
        [(''openai'', SName ''YoutTubeScript.py''),
         (''claude'', SName ''YouTubeScript_Claude.py''),
         (''description'', SName ''YouTube video script generation''),
         (''outputs'', SList [''youtube_script.json'', ''youtube_script.md''])])]"

text \<open>
  \<open>_notify_progress\<close> hands the update to every registered callback and swallows what
  they raise; the callbacks are outside the model, the update is recorded.
\<close>

definition notify_progress :: "string \<Rightarrow> string \<Rightarrow> real \<Rightarrow> string \<Rightarrow> world \<Rightarrow> world" where
  "notify_progress pid stage progress msg w = w\<lparr>notified := notified w @ [(pid, stage, progress, msg)]\<rparr>"

definition entry_truthy :: "script_entry option \<Rightarrow> bool" where
  "entry_truthy e = (case e of None \<Rightarrow> False | Some (SName n) \<Rightarrow> n \<noteq> [] | Some (SList l) \<Rightarrow> l \<noteq> [])"

text \<open>
  \<open>_get_script_path\<close>: the generator name is whatever \<open>config\<close> holds; a key of the
  stage's entry that holds a list cannot be joined to a path (\<open>Path / list\<close> raises
  TypeError, with the text Python gives it on a POSIX system).
\<close>

definition get_script_path :: "path \<Rightarrow> string \<Rightarrow> jvalue \<Rightarrow> pyexn + path option" where
  "get_script_path scripts_dir stage content_generator =
     (case map_of stage_scripts stage of
        None \<Rightarrow> Inr None
      | Some stage_config \<Rightarrow>
         (let script_name =
                (if stage = ''keyword_research'' then map_of stage_config ''script''
                 else (let sn = (case content_generator of
                                   JStr g \<Rightarrow> map_of stage_config g
                                 | _ \<Rightarrow> None)
                       in if \<not> entry_truthy sn then map_of stage_config ''openai'' else sn))
          in if entry_truthy script_name
             then (case script_name of
                     Some (SName n) \<Rightarrow> Inr (Some (scripts_dir @ [n]))
                   | _ \<Rightarrow> Inl (TypeError (''unsupported operand type(s) for /: '' @ [CHR 0x27] @ ''PosixPath''
                                     @ [CHR 0x27] @ '' and '' @ [CHR 0x27] @ ''list'' @ [CHR 0x27])))
             else Inr None))"

definition content_generator_of :: "ContentProject \<Rightarrow> jvalue" where
  "content_generator_of project =
     (case map_of (config project) ''content_generator'' of None \<Rightarrow> JStr ''claude'' | Some v \<Rightarrow> v)"

record stage_result =
  success :: bool
  message :: string
  outputs :: "string list option"
  stdout :: "string option"
  stderr :: "string option"

definition stage_mapping :: "(string \<times> string) list" where
  "stage_mapping =
     [(''keyword_research'', ''stage_01_keyword_research''),
      (''content_briefs'', ''stage_02_content_briefs''),
      (''article_writing'', ''stage_03_articles''),
      (''social_media'', ''stage_04_social_media''),
      (''youtube_scripts'', ''stage_05_youtube'')]"

definition expected_outputs_of :: "string \<Rightarrow> string list" where
  "expected_outputs_of stage =
     (case map_of stage_scripts stage of
        None \<Rightarrow> []
      | Some stage_config \<Rightarrow>
          (case map_of stage_config ''outputs'' of Some (SList l) \<Rightarrow> l | _ \<Rightarrow> []))"

definition claude_patterns :: "string list" where
  "claude_patterns = [''claude_writing_prompt.md'', ''claude_social_prompts_*.md'',
                      ''claude_youtube_prompts_*.md'', ''*_claude.json'', ''*_claude.md'']"

text \<open>The first loop of \<open>_organize_stage_outputs\<close>: the expected output files.\<close>

fun move_expected ::
  "externals \<Rightarrow> string \<Rightarrow> path \<Rightarrow> path \<Rightarrow> string list \<Rightarrow> ContentProject \<Rightarrow> world
     \<Rightarrow> pyexn option \<times> ContentProject \<times> world" where
  "move_expected ext stage pp stage_dir [] project w = (None, project, w)"
| "move_expected ext stage pp stage_dir (output_file # rest) project w =
     (if path_exists w (pp @ [output_file])
      then (case rename w (pp @ [output_file]) (stage_dir @ [output_file]) of
              Inl e \<Rightarrow> (Some e, project, w)
            | Inr w1 \<Rightarrow>
               (let (ok, project1, w2) =
                      add_output_file ext project w1 stage (path_str (stage_dir @ [output_file]))
                in move_expected ext stage pp stage_dir rest project1 w2))
      else move_expected ext stage pp stage_dir rest project w)"

text \<open>The inner loop of the second part: the files that one pattern matched.\<close>

fun move_matched ::
  "externals \<Rightarrow> string \<Rightarrow> path \<Rightarrow> path list \<Rightarrow> ContentProject \<Rightarrow> world
     \<Rightarrow> pyexn option \<times> ContentProject \<times> world" where
  "move_matched ext stage stage_dir [] project w = (None, project, w)"
| "move_matched ext stage stage_dir (source_file # rest) project w =
     (let dest_file = stage_dir @ [path_name source_file] in
      if source_file \<noteq> dest_file
      then (case rename w source_file dest_file of
              Inl e \<Rightarrow> (Some e, project, w)
            | Inr w1 \<Rightarrow>
               (let (ok, project1, w2) = add_output_file ext project w1 stage (path_str dest_file)
                in move_matched ext stage stage_dir rest project1 w2))
      else move_matched ext stage stage_dir rest project w)"

fun move_patterns ::
  "externals \<Rightarrow> string \<Rightarrow> path \<Rightarrow> path \<Rightarrow> string list \<Rightarrow> ContentProject \<Rightarrow> world
     \<Rightarrow> pyexn option \<times> ContentProject \<times> world" where
  "move_patterns ext stage pp stage_dir [] project w = (None, project, w)"
| "move_patterns ext stage pp stage_dir (pat # rest) project w =
     (case move_matched ext stage stage_dir (glob w pp pat) project w of
        (Some e, project1, w1) \<Rightarrow> (Some e, project1, w1)
      | (None, project1, w1) \<Rightarrow> move_patterns ext stage pp stage_dir rest project1 w1)"

definition organize_stage_outputs ::
  "externals \<Rightarrow> ContentProject \<Rightarrow> world \<Rightarrow> string \<Rightarrow> pyexn option \<times> ContentProject \<times> world" where
  "organize_stage_outputs ext project w stage =
     (let (pp, project1) = get_project_path project [''projects''];
          stage_dir = pp @ [case map_of stage_mapping stage of None \<Rightarrow> stage | Some d \<Rightarrow> d]
      in case mkdir w stage_dir of
           Inl e \<Rightarrow> (Some e, project1, w)
         | Inr w1 \<Rightarrow>
            (case move_expected ext stage pp stage_dir (expected_outputs_of stage) project1 w1 of
               (Some e, project2, w2) \<Rightarrow> (Some e, project2, w2)
             | (None, project2, w2) \<Rightarrow>
                (if map_of (config project2) ''content_generator'' = Some (JStr ''claude'')
                 then move_patterns ext stage pp stage_dir claude_patterns project2 w2
                 else (None, project2, w2))))"

text \<open>
  The inner \<open>try\<close> of the last branch of \<open>execute_stage\<close>, run in the project directory:
  the script is started, its exit code decides. \<open>Inl\<close> is an exception on its way out.
  \<open>script_exited\<close> is the part after the script has returned.
\<close>

definition script_exited ::
  "externals \<Rightarrow> ContentProject \<Rightarrow> world \<Rightarrow> string \<Rightarrow> int \<Rightarrow> string \<Rightarrow> string
     \<Rightarrow> (pyexn + stage_result) \<times> ContentProject \<times> world" where
  "script_exited ext project w stage returncode out err =
     (if returncode = 0
      then (case organize_stage_outputs ext project w stage of
              (Some e, project1, w1) \<Rightarrow> (Inl e, project1, w1)
            | (None, project1, w1) \<Rightarrow>
               (let (ok, project2, w2) =
                      update_stage_status ext project1 w1 stage ''completed'' None;
                    w3 = notify_progress (project_id project2) stage 100
                           ''Stage completed successfully'' w2
                in case get_stage_files project2 w3 stage of
                     (Inl e, project3) \<Rightarrow> (Inl e, project3, w3)
                   | (Inr fls, project3) \<Rightarrow>
                      (Inr \<lparr>success = True,
                            message = ''Stage '' @ stage @ '' completed successfully'',
                            outputs = Some fls, stdout = Some out, stderr = Some err\<rparr>,
                       project3, w3)))
      else (let error_msg = ''Script execution failed: '' @ err;
                (ok, project1, w1) =
                   update_stage_status ext project w stage ''failed'' (Some error_msg)
            in (Inr \<lparr>success = False, message = error_msg, outputs = None,
                      stdout = Some out, stderr = Some err\<rparr>, project1, w1)))"

definition run_stage_script ::
  "externals \<Rightarrow> path \<Rightarrow> path \<Rightarrow> ContentProject \<Rightarrow> world \<Rightarrow> string
     \<Rightarrow> (pyexn + stage_result) \<times> ContentProject \<times> world" where
  "run_stage_script ext script_path pp project w stage =
     (case chdir w pp of
        Inl e \<Rightarrow> (Inl e, project, w)
      | Inr w1 \<Rightarrow>
         (let w2 = notify_progress (project_id project) stage 25 ''Executing script'' w1;
              w3 = w2\<lparr>invoked := invoked w2 @ [stage]\<rparr>;
              (outcome, f) = run_process ext script_path (cwd w3) project (fs w3);
              w4 = w3\<lparr>fs := f\<rparr>
          in case outcome of
               Raised e \<Rightarrow> (Inl e, project, w4)
             | Exited returncode out err \<Rightarrow>
                 script_exited ext project
                   (notify_progress (project_id project) stage 75 ''Processing outputs'' w4)
                   stage returncode out err))"

text \<open>\<open>finally: os.chdir(original_cwd)\<close>: an exception raised here replaces the outcome.\<close>

definition finally_chdir ::
  "path \<Rightarrow> (pyexn + stage_result) \<times> ContentProject \<times> world
     \<Rightarrow> (pyexn + stage_result) \<times> ContentProject \<times> world" where
  "finally_chdir original_cwd r =
     (case r of (res, project, w) \<Rightarrow>
        (case chdir w original_cwd of
           Inl e \<Rightarrow> (Inl e, project, w)
         | Inr w1 \<Rightarrow> (res, project, w1)))"

definition output_files_get :: "ContentProject \<Rightarrow> string \<Rightarrow> string list" where
  "output_files_get project stage =
     (case map_of (output_files project) stage of None \<Rightarrow> [] | Some fls \<Rightarrow> fls)"

definition completed_result :: "string \<Rightarrow> string list \<Rightarrow> stage_result" where
  "completed_result stage fls =
     \<lparr>success = True, message = ''Stage '' @ stage @ '' completed successfully'',
      outputs = Some fls, stdout = None, stderr = None\<rparr>"

text \<open>
  The body of the \<open>try\<close> of \<open>execute_stage\<close>, one branch per kind of stage:
  keyword research and content briefs through the ScriptExecutor, the others by running
  the stage's script. \<open>stage_succeeded\<close> is what the first two do after a True.
\<close>

definition stage_succeeded ::
  "externals \<Rightarrow> ContentProject \<Rightarrow> world \<Rightarrow> string
     \<Rightarrow> (pyexn + stage_result) \<times> ContentProject \<times> world" where
  "stage_succeeded ext project w stage =
     (let (ok1, project1, w1) = update_stage_status ext project w stage ''completed'' None;
          (ok2, project2, w2) = save_config project1 w1
      in (Inr (completed_result stage (output_files_get project2 stage)), project2, w2))"

definition script_branch ::
  "externals \<Rightarrow> path \<Rightarrow> ContentProject \<Rightarrow> world \<Rightarrow> string
     \<Rightarrow> (pyexn + stage_result) \<times> ContentProject \<times> world" where
  "script_branch ext scripts_dir project w stage =
     (case get_script_path scripts_dir stage (content_generator_of project) of
        Inl e \<Rightarrow> (Inl e, project, w)
      | Inr None \<Rightarrow> (Inl (FileNotFoundError (''Script not found for stage '' @ stage)), project, w)
      | Inr (Some script_path) \<Rightarrow>
         (if \<not> path_exists w script_path
          then (Inl (FileNotFoundError (''Script not found for stage '' @ stage)), project, w)
          else (let (pp0, project1) = get_project_path project [''projects''];
                    original_cwd = cwd w;
                    (pp, project2) = get_project_path project1 [''projects'']
                in finally_chdir original_cwd
                     (run_stage_script ext script_path pp project2 w stage))))"

definition stage_body ::
  "externals \<Rightarrow> path \<Rightarrow> ContentProject \<Rightarrow> world \<Rightarrow> string
     \<Rightarrow> (pyexn + stage_result) \<times> ContentProject \<times> world" where
  "stage_body ext scripts_dir project w stage =
     (if stage = ''keyword_research'' then
        (let (ok, project1, w1) =
               execute_keyword_research ext scripts_dir project
                 (notify_progress (project_id project) stage) (w\<lparr>invoked := invoked w @ [stage]\<rparr>)
         in if \<not> ok then (Inl (PyException ''Keyword research execution failed''), project1, w1)
            else stage_succeeded ext project1 w1 stage)
      else if stage = ''content_briefs'' then
        (let (ok, project1, w1) =
               execute_article_brief ext project
                 (notify_progress (project_id project) stage) (w\<lparr>invoked := invoked w @ [stage]\<rparr>)
         in if \<not> ok then (Inl (PyException ''Article brief generation failed''), project1, w1)
            else stage_succeeded ext project1 w1 stage)
      else script_branch ext scripts_dir project w stage)"

text \<open>
  The two handlers of \<open>execute_stage\<close> differ in the message only: a timeout has a
  fixed one, any other exception is quoted.
\<close>

definition handler_message :: "pyexn \<Rightarrow> string" where
  "handler_message e =
     (case e of
        TimeoutExpired m \<Rightarrow> ''Script execution timed out''
      | _ \<Rightarrow> ''Error executing stage: '' @ exn_str e)"

definition failed_result :: "string \<Rightarrow> stage_result" where
  "failed_result error_msg =
     \<lparr>success = False, message = error_msg, outputs = None, stdout = None, stderr = None\<rparr>"

definition stage_completed :: "ContentProject \<Rightarrow> string \<Rightarrow> bool" where
  "stage_completed project stage =
     (case map_of (execution_status project) stage of
        None \<Rightarrow> False
      | Some s \<Rightarrow> status s = ''completed'')"

text \<open>
  \<open>execute_stage\<close>. The short cut for a completed stage is outside the \<open>try\<close>: what
  \<open>get_stage_files\<close> raises there leaves the method (\<open>Inl\<close>).
\<close>

definition execute_stage ::
  "externals \<Rightarrow> path \<Rightarrow> ContentProject \<Rightarrow> world \<Rightarrow> string \<Rightarrow> bool
     \<Rightarrow> (pyexn + stage_result) \<times> ContentProject \<times> world" where
  "execute_stage ext scripts_dir project w stage force_regenerate =
     (if stage_completed project stage \<and> \<not> force_regenerate
      then (case get_stage_files project w stage of
              (Inl e, project1) \<Rightarrow> (Inl e, project1, w)
            | (Inr fls, project1) \<Rightarrow>
               (Inr \<lparr>success = True, message = ''Stage '' @ stage @ '' already completed'',
                     outputs = Some fls, stdout = None, stderr = None\<rparr>, project1, w))
      else
        (let (ok, project1, w1) = update_stage_status ext project w stage ''running'' None;
             w2 = notify_progress (project_id project1) stage 0 ''Starting stage execution'' w1
         in case stage_body ext scripts_dir project1 w2 stage of
              (Inr res, project2, w3) \<Rightarrow> (Inr res, project2, w3)
            | (Inl e, project2, w3) \<Rightarrow>
               (let error_msg = handler_message e;
                    (ok1, project3, w4) =
                       update_stage_status ext project2 w3 stage ''failed'' (Some error_msg)
                in (Inr (failed_result error_msg), project3, w4))))"

text \<open>\<open>execute_full_pipeline\<close>: the loop stops at the first stage that does not succeed.\<close>

definition stages :: "string list" where
  "stages = [''keyword_research'', ''content_briefs'', ''article_writing'',
             ''social_media'', ''youtube_scripts'']"

fun index_of :: "string \<Rightarrow> string list \<Rightarrow> nat" where
  "index_of x [] = 0"
| "index_of x (y # ys) = (if x = y then 0 else Suc (index_of x ys))"

fun pipeline_loop ::
  "externals \<Rightarrow> path \<Rightarrow> bool \<Rightarrow> (nat \<times> string) list \<Rightarrow> (string \<times> stage_result) list
     \<Rightarrow> ContentProject \<Rightarrow> world
     \<Rightarrow> (pyexn + bool \<times> (string \<times> stage_result) list) \<times> ContentProject \<times> world" where
  "pipeline_loop ext scripts_dir force [] results project w = (Inr (True, results), project, w)"
| "pipeline_loop ext scripts_dir force ((i, stage) # rest) results project w =
     (let w1 = notify_progress (project_id project) ''pipeline''
                 (real i / real (length stages) * 100) (''Executing '' @ stage) w
      in case execute_stage ext scripts_dir project w1 stage force of
           (Inl e, project1, w2) \<Rightarrow> (Inl e, project1, w2)
         | (Inr result, project1, w2) \<Rightarrow>
            (let results1 = AList.update stage result results in
             if \<not> success result then (Inr (False, results1), project1, w2)
             else pipeline_loop ext scripts_dir force rest results1 project1 w2))"

record pipeline_result =
  pr_success :: bool
  pr_results :: "(string \<times> stage_result) list"
  pr_project_id :: string

definition execute_full_pipeline ::
  "externals \<Rightarrow> path \<Rightarrow> ContentProject \<Rightarrow> world \<Rightarrow> string option \<Rightarrow> bool
     \<Rightarrow> (pyexn + pipeline_result) \<times> ContentProject \<times> world" where
  "execute_full_pipeline ext scripts_dir project w start_stage force_regenerate =
     (let start_index = (case start_stage of
                           None \<Rightarrow> 0
                         | Some s \<Rightarrow> if s \<noteq> [] \<and> s \<in> set stages then index_of s stages else 0)
      in case pipeline_loop ext scripts_dir force_regenerate
                (drop start_index (zip [0 ..< length stages] stages)) [] project w of
           (Inl e, project1, w1) \<Rightarrow> (Inl e, project1, w1)
         | (Inr (overall_success, results), project1, w1) \<Rightarrow>
            (Inr \<lparr>pr_success = overall_success, pr_results = results,
                  pr_project_id = project_id project1\<rparr>,
             project1,
             notify_progress (project_id project1) ''pipeline'' 100
               (if overall_success then ''Pipeline execution completed''
                else ''Pipeline execution failed'') w1))"

section \<open>ProjectManager (backend/core/project_manager.py)\<close>

record ProjectManager =
  projects_base_dir :: path
  project_cache :: "(string \<times> ContentProject) list"

text \<open>The constructor makes the base directory if it is not there and starts with an empty cache.\<close>

definition ProjectManager_init :: "world \<Rightarrow> path \<Rightarrow> (pyexn + ProjectManager) \<times> world" where
  "ProjectManager_init w base_dir =
     (case mkdir w base_dir of
        Inl e \<Rightarrow> (Inl e, w)
      | Inr w1 \<Rightarrow> (Inr \<lparr>projects_base_dir = base_dir, project_cache = []\<rparr>, w1))"

text \<open>\<open>x in s\<close> for strings: \<open>x\<close> occurs in \<open>s\<close> as a contiguous piece.\<close>

fun is_substring :: "string \<Rightarrow> string \<Rightarrow> bool" where
  "is_substring x [] = (x = [])"
| "is_substring x (c # s) = (prefix x (c # s) \<or> is_substring x s)"

text \<open>\<open>d.update(overrides)\<close>\<close>

definition dict_update :: "('k \<times> 'v) list \<Rightarrow> ('k \<times> 'v) list \<Rightarrow> ('k \<times> 'v) list" where
  "dict_update d overrides = foldl (\<lambda>acc (k, v). AList.update k v acc) d overrides"

text \<open>
  \<open>create_project\<close>: an empty keyword list or an empty override dict is not applied;
  a structure that could not be created raises.
\<close>

definition create_project ::
  "externals \<Rightarrow> ProjectManager \<Rightarrow> world \<Rightarrow> string \<Rightarrow> string \<Rightarrow> string list option
     \<Rightarrow> (string \<times> jvalue) list option
     \<Rightarrow> (pyexn + ContentProject) \<times> ProjectManager \<times> world" where
  "create_project ext self w name_arg description_arg seed_keywords_arg config_overrides =
     (let (project, w1) = ContentProject_init ext w name_arg description_arg None;
          project1 = (case seed_keywords_arg of
                        None \<Rightarrow> project
                      | Some ks \<Rightarrow> if ks \<noteq> []
                                   then project\<lparr>input_data := (input_data project)\<lparr>seed_keywords := ks\<rparr>\<rparr>
                                   else project);
          project2 = (case config_overrides of
                        None \<Rightarrow> project1
                      | Some ov \<Rightarrow> if ov \<noteq> []
                                   then project1\<lparr>config := dict_update (config project1) ov\<rparr>
                                   else project1);
          (ok, project3, w2) = create_project_structure project2 w1 (projects_base_dir self)
      in if ok
         then (Inr project3,
               self\<lparr>project_cache := AList.update (project_id project3) project3 (project_cache self)\<rparr>,
               w2)
         else (Inl (PyException ''Failed to create project structure''), self, w2))"

text \<open>
  \<open>_project_exists_on_filesystem\<close> derives the directory name from the id and the
  name on its own, replacing spaces only.
\<close>

definition project_exists_on_filesystem :: "ProjectManager \<Rightarrow> world \<Rightarrow> ContentProject \<Rightarrow> bool" where
  "project_exists_on_filesystem self w project =
     (if \<not> path_exists w (projects_base_dir self) then False
      else (let expected_dir_name =
                  ''project-'' @ take 8 (project_id project) @ ''-''
                    @ replace_char (CHR '' '') (CHR ''-'') (lower (name project));
                project_dir = projects_base_dir self @ [expected_dir_name]
            in if \<not> path_exists w project_dir then False
               else if \<not> path_is_dir w project_dir then False
               else path_exists w (project_dir @ [''config.json''])))"

definition expected_stages :: "string list" where
  "expected_stages = [''keyword_research'', ''content_briefs'', ''article_writing'',
                      ''social_media'', ''youtube_scripts'']"

definition validate_project :: "ContentProject \<Rightarrow> bool" where
  "validate_project project =
     (if project_id project = [] \<or> name project = [] then False
      else if execution_status project = [] then False
      else list_all (\<lambda>stage. map_of (execution_status project) stage \<noteq> None) expected_stages)"

text \<open>
  The scan of \<open>load_project\<close>: the first directory whose name contains the id and
  whose configuration loads with that id decides; \<open>Some\<close> is the project to cache and
  return, \<open>None\<close> is the result None.
\<close>

fun scan_project_dirs ::
  "externals \<Rightarrow> string \<Rightarrow> path list \<Rightarrow> world \<Rightarrow> ContentProject option \<times> world" where
  "scan_project_dirs ext pid [] w = (None, w)"
| "scan_project_dirs ext pid (project_dir # rest) w =
     (if path_is_dir w project_dir \<and> is_substring pid (path_name project_dir)
      then (case load_from_config ext w project_dir of
              (Some project, w1) \<Rightarrow>
                (if project_id project = pid
                 then (if validate_project project then (Some project, w1) else (None, w1))
                 else scan_project_dirs ext pid rest w1)
            | (None, w1) \<Rightarrow> scan_project_dirs ext pid rest w1)
      else scan_project_dirs ext pid rest w)"

definition load_project ::
  "externals \<Rightarrow> ProjectManager \<Rightarrow> world \<Rightarrow> string
     \<Rightarrow> ContentProject option \<times> ProjectManager \<times> world" where
  "load_project ext self w pid =
     (let cached = map_of (project_cache self) pid in
      if cached \<noteq> None \<and> project_exists_on_filesystem self w (the cached)
      then (cached, self, w)
      else
       (let self1 = (if cached \<noteq> None
                     then self\<lparr>project_cache := AList.delete pid (project_cache self)\<rparr>
                     else self)
        in case iterdir w (projects_base_dir self1) of
             Inl e \<Rightarrow> (None, self1, w)
           | Inr entries \<Rightarrow>
              (case scan_project_dirs ext pid entries w of
                 (Some project, w1) \<Rightarrow>
                   (Some project,
                    self1\<lparr>project_cache := AList.update pid project (project_cache self1)\<rparr>, w1)
               | (None, w1) \<Rightarrow> (None, self1, w1))))"

section \<open>ProgressTracker (backend/utils/progress_tracker.py)\<close>

text \<open>
  A \<open>ProgressUpdate\<close>; the time stamp is the reading of \<open>datetime.now()\<close> in
  microseconds. Progress values are real numbers.
\<close>

record ProgressUpdate =
  pu_project_id :: string
  pu_stage :: string
  pu_progress :: real
  pu_message :: string
  pu_timestamp :: int

text \<open>
  The tracker: the latest update per project and stage, the registered callbacks (by
  name; what they do is outside the model) and the updates handed to them.
\<close>

record ProgressTracker =
  progress_data :: "(string \<times> (string \<times> ProgressUpdate) list) list"
  callbacks :: "string list"
  delivered :: "(string \<times> ProgressUpdate) list"

definition update_progress ::
  "ProgressTracker \<Rightarrow> int \<Rightarrow> string \<Rightarrow> string \<Rightarrow> real \<Rightarrow> string \<Rightarrow> ProgressTracker" where
  "update_progress self now_reading pid stage progress msg =
     (let progress_update =
            \<lparr>pu_project_id = pid, pu_stage = stage,
             pu_progress = max 0 (min 100 progress),
             pu_message = msg, pu_timestamp = now_reading\<rparr>;
          data = (if map_of (progress_data self) pid = None
                  then AList.update pid [] (progress_data self)
                  else progress_data self);
          stage_dict = (case map_of data pid of None \<Rightarrow> [] | Some d \<Rightarrow> d)
      in self\<lparr>progress_data := AList.update pid (AList.update stage progress_update stage_dict) data,
              delivered := delivered self @ map (\<lambda>cb. (cb, progress_update)) (callbacks self)\<rparr>)"

text \<open>\<open>max(values, key=timestamp)\<close>: the first of the greatest.\<close>

fun latest_of :: "ProgressUpdate \<Rightarrow> ProgressUpdate list \<Rightarrow> ProgressUpdate" where
  "latest_of best [] = best"
| "latest_of best (u # us) =
     (if pu_timestamp best < pu_timestamp u then latest_of u us else latest_of best us)"

definition get_progress :: "ProgressTracker \<Rightarrow> string \<Rightarrow> string option \<Rightarrow> ProgressUpdate option" where
  "get_progress self pid stage =
     (case map_of (progress_data self) pid of
        None \<Rightarrow> None
      | Some stage_dict \<Rightarrow>
         (if truthy stage then map_of stage_dict (the stage)
          else (case map snd stage_dict of
                  [] \<Rightarrow> None
                | u # us \<Rightarrow> Some (latest_of u us))))"

text \<open>
  \<open>cleanup_completed\<close> computes its cut-off as
  \<open>datetime.now() - time.timedelta(hours=max_age_hours)\<close>. The module imports
  \<open>time\<close> (the standard module) and, from \<open>datetime\<close>, the class \<open>datetime\<close> only; the
  standard module \<open>time\<close> has no attribute \<open>timedelta\<close>, so the attribute access raises
  AttributeError before the lock is taken. The rest of the body is given as written.
\<close>

definition time_timedelta :: "int \<Rightarrow> pyexn + int" where
  "time_timedelta hours =
     Inl (AttributeError (''module '' @ [CHR 0x27] @ ''time'' @ [CHR 0x27]
            @ '' has no attribute '' @ [CHR 0x27] @ ''timedelta'' @ [CHR 0x27]))"

definition cleanup_completed :: "ProgressTracker \<Rightarrow> int \<Rightarrow> int \<Rightarrow> pyexn + ProgressTracker" where
  "cleanup_completed self now_reading max_age_hours =
     (case time_timedelta max_age_hours of
        Inl e \<Rightarrow> Inl e
      | Inr delta \<Rightarrow>
         (let cutoff_time = now_reading - delta;
              swept = map (\<lambda>(pid, stage_dict).
                             (pid, filter (\<lambda>(stage, u). \<not> (pu_progress u \<ge> 100 \<and> pu_timestamp u < cutoff_time))
                                     stage_dict))
                          (progress_data self)
          in Inr (self\<lparr>progress_data := filter (\<lambda>(pid, stage_dict). stage_dict \<noteq> []) swept\<rparr>)))"

section \<open>Concrete inputs\<close>

text \<open>
  A clock, a UUID generator and child processes to run the definitions on: the
  readings of the clock and the UUIDs count upwards; the keyword research script writes
  its two output files and exits with 0, every other script exits with 1.
\<close>

definition demo_run_process ::
  "path \<Rightarrow> path \<Rightarrow> ContentProject \<Rightarrow> filesys \<Rightarrow> proc_outcome \<times> filesys" where
  "demo_run_process script dir project f =
     (if path_name script = ''keyword_research_temp.py''
      then (Exited 0 [] [],
            f\<lparr>files := AList.update (dir @ [''cluster_summary.csv'']) (Other ''summary'')
                          (AList.update (dir @ [''keyword_clusters.csv'']) (Other ''clusters'') (files f))\<rparr>)
      else (Exited 1 [] ''boom'', f))"

text \<open>A decimal counter of fixed width, for the readings of the clock and the UUIDs.\<close>

fun incr_rev :: "string \<Rightarrow> string" where
  "incr_rev [] = ''1''"
| "incr_rev (c # cs) =
     (if c = CHR ''9'' then CHR ''0'' # incr_rev cs
      else (case map_of (zip ''012345678'' ''123456789'') c of None \<Rightarrow> c | Some d \<Rightarrow> d) # cs)"

definition demo_counter :: "string \<Rightarrow> nat \<Rightarrow> string" where
  "demo_counter zeros n = rev ((incr_rev ^^ n) zeros)"

definition demo_ext :: externals where
  "demo_ext =
     \<lparr>clock = (\<lambda>n. ''2025-01-01T00:00:00.'' @ demo_counter ''000000'' (Suc n)),
      uuid4 = (\<lambda>n. ''1234abcd-0000-4000-8000-'' @ demo_counter ''000000000000'' (Suc n)),
      run_process = demo_run_process,
      rewrite_script = (\<lambda>original kws. ''print(1)''),
      brief_placeholder = (\<lambda>project r. ''# Article Brief'')\<rparr>"

text \<open>An empty disk below the working directory \<open>/app\<close>, with the scripts directory.\<close>

definition demo_world :: world where
  "demo_world =
     \<lparr>fs = \<lparr>dirs = [[''/'', ''app''], [''/'', ''app'', ''scripts''], [''/'', ''app'', ''projects'']],
            files = [([''/'', ''app'', ''scripts'', ''KeywordResearcher.py''], Other ''print(0)'')]\<rparr>,
      cwd = [''/'', ''app''], ticks = 0, uuids = 0, notified = [], invoked = []\<rparr>"

definition demo_scripts_dir :: path where
  "demo_scripts_dir = [''/'', ''app'', ''scripts'']"

text \<open>A project as the constructor makes it.\<close>

definition demo_project :: ContentProject where
  "demo_project = fst (ContentProject_init demo_ext demo_world ''Demo'' [] None)"

text \<open>The same project once keyword research has completed.\<close>

definition demo_project_kr_done :: ContentProject where
  "demo_project_kr_done =
     demo_project\<lparr>execution_status :=
       AList.update ''keyword_research''
         \<lparr>status = ''completed'', completed_at = Some ''2025-01-01T00:10:00'', error = None\<rparr>
         (execution_status demo_project)\<rparr>"

text \<open>A tracker that holds one finished operation, stamped at time 0.\<close>

definition demo_tracker :: ProgressTracker where
  "demo_tracker =
     \<lparr>progress_data =
        [(''p1'', [(''keyword_research'',
                    \<lparr>pu_project_id = ''p1'', pu_stage = ''keyword_research'', pu_progress = 100,
                     pu_message = ''Operation completed'', pu_timestamp = 0\<rparr>)])],
      callbacks = [], delivered = []\<rparr>"

definition empty_tracker :: ProgressTracker where
  "empty_tracker = \<lparr>progress_data = [], callbacks = [], delivered = []\<rparr>"

text \<open>A manager with the default base directory and an empty cache.\<close>

definition demo_manager :: ProjectManager where
  "demo_manager = \<lparr>projects_base_dir = [''projects''], project_cache = []\<rparr>"

text \<open>
  The project \<open>Demo\<close> with the seed keywords a and b, as \<open>create_project\<close> returns it,
  with the manager and the disk after the call; and the same for the name \<open>my_project\<close>.
\<close>

definition demo_created :: "(pyexn + ContentProject) \<times> ProjectManager \<times> world" where
  "demo_created =
     create_project demo_ext demo_manager demo_world ''Demo'' ''A demo'' (Some [''a'', ''b'']) None"

definition underscore_created :: "(pyexn + ContentProject) \<times> ProjectManager \<times> world" where
  "underscore_created =
     create_project demo_ext demo_manager demo_world ''my_project'' ''A demo'' (Some [''a'', ''b'']) None"

definition demo_created_project :: ContentProject where
  "demo_created_project =
     \<lparr>project_id = ''1234abcd-0000-4000-8000-000000000001'', name = ''Demo'', description = ''A demo'',
      created_at = ''2025-01-01T00:00:00.000001'', updated_at = ''2025-01-01T00:00:00.000002'',
      config = default_config,
      input_data = \<lparr>seed_keywords = [''a'', ''b''], target_audience = [], custom_instructions = []\<rparr>,
      execution_status = default_execution_status,
      output_files = default_output_files,
      project_path = Some [''projects'', ''project-1234abcd-demo'']\<rparr>"

definition demo_disk :: world where
  "demo_disk =
     \<lparr>fs = \<lparr>dirs = [[''/'', ''app''], [''/'', ''app'', ''scripts''], [''/'', ''app'', ''projects''],
                    [''/'', ''app'', ''projects'', ''project-1234abcd-demo''],
                    [''/'', ''app'', ''projects'', ''project-1234abcd-demo'', ''inputs''],
                    [''/'', ''app'', ''projects'', ''project-1234abcd-demo'', ''stage_01_keyword_research''],
                    [''/'', ''app'', ''projects'', ''project-1234abcd-demo'', ''stage_02_content_briefs''],
                    [''/'', ''app'', ''projects'', ''project-1234abcd-demo'', ''stage_03_articles''],
                    [''/'', ''app'', ''projects'', ''project-1234abcd-demo'', ''stage_04_social_media''],
                    [''/'', ''app'', ''projects'', ''project-1234abcd-demo'', ''stage_05_youtube''],
                    [''/'', ''app'', ''projects'', ''project-1234abcd-demo'', ''exports'']],
            files = [([''/'', ''app'', ''scripts'', ''KeywordResearcher.py''], Other ''print(0)''),
                     ([''/'', ''app'', ''projects'', ''project-1234abcd-demo'', ''config.json''],
                        ConfigJson (config_data.truncate demo_created_project)),
                     ([''/'', ''app'', ''projects'', ''project-1234abcd-demo'', ''inputs'', ''seed_keywords.txt''],
                        Other [CHR ''a'', CHR 0x0A, CHR ''b'', CHR 0x0A]),
                     ([''/'', ''app'', ''projects'', ''project-1234abcd-demo'', ''inputs'', ''settings.json''],
                        SettingsJson default_config)]\<rparr>,
      cwd = [''/'', ''app''], ticks = 2, uuids = 1, notified = [], invoked = []\<rparr>"

text \<open>The same for the name \<open>my_project\<close>.\<close>

definition underscore_project :: ContentProject where
  "underscore_project =
     demo_created_project\<lparr>name := ''my_project'',
       project_path := Some [''projects'', ''project-1234abcd-my-project'']\<rparr>"

definition underscore_disk :: world where
  "underscore_disk =
     \<lparr>fs = \<lparr>dirs = [[''/'', ''app''], [''/'', ''app'', ''scripts''], [''/'', ''app'', ''projects''],
                    [''/'', ''app'', ''projects'', ''project-1234abcd-my-project''],
                    [''/'', ''app'', ''projects'', ''project-1234abcd-my-project'', ''inputs''],
                    [''/'', ''app'', ''projects'', ''project-1234abcd-my-project'', ''stage_01_keyword_research''],
                    [''/'', ''app'', ''projects'', ''project-1234abcd-my-project'', ''stage_02_content_briefs''],
                    [''/'', ''app'', ''projects'', ''project-1234abcd-my-project'', ''stage_03_articles''],
                    [''/'', ''app'', ''projects'', ''project-1234abcd-my-project'', ''stage_04_social_media''],
                    [''/'', ''app'', ''projects'', ''project-1234abcd-my-project'', ''stage_05_youtube''],
                    [''/'', ''app'', ''projects'', ''project-1234abcd-my-project'', ''exports'']],
            files = [([''/'', ''app'', ''scripts'', ''KeywordResearcher.py''], Other ''print(0)''),
                     ([''/'', ''app'', ''projects'', ''project-1234abcd-my-project'', ''config.json''],
                        ConfigJson (config_data.truncate underscore_project)),
                     ([''/'', ''app'', ''projects'', ''project-1234abcd-my-project'', ''inputs'', ''seed_keywords.txt''],
                        Other [CHR ''a'', CHR 0x0A, CHR ''b'', CHR 0x0A]),
                     ([''/'', ''app'', ''projects'', ''project-1234abcd-my-project'', ''inputs'', ''settings.json''],
                        SettingsJson default_config)]\<rparr>,
      cwd = [''/'', ''app''], ticks = 2, uuids = 1, notified = [], invoked = []\<rparr>"

text \<open>
  A run of the pipeline on disk. The manager has the absolute base directory
  \<open>/app/projects\<close>; the scripts directory also holds the article writer, which the
  child-process parameter lets exit with 1. \<open>pipeline_project\<close> and \<open>pipeline_disk0\<close>
  are what \<open>create_project\<close> returns and leaves for the name \<open>Demo\<close>; the numbered
  projects and disks are the states after keyword research, content briefs and article
  writing have been run in turn.
\<close>

definition pipeline_world :: world where
  "pipeline_world =
     demo_world\<lparr>fs := (fs demo_world)\<lparr>files := files (fs demo_world) @
       [([''/'', ''app'', ''scripts'', ''ArticleWriter_Claude.py''], Other ''raise SystemExit(1)'')]\<rparr>\<rparr>"

definition pipeline_manager :: ProjectManager where
  "pipeline_manager = \<lparr>projects_base_dir = [''/'', ''app'', ''projects''], project_cache = []\<rparr>"

definition pipeline_dir :: path where
  "pipeline_dir = [''/'', ''app'', ''projects'', ''project-1234abcd-demo'']"

definition pipeline_project :: ContentProject where
  "pipeline_project = demo_created_project\<lparr>project_path := Some pipeline_dir\<rparr>"

definition pipeline_disk ::
  "ContentProject \<Rightarrow> (path \<times> file_content) list \<Rightarrow> nat
     \<Rightarrow> (string \<times> string \<times> real \<times> string) list \<Rightarrow> string list \<Rightarrow> world" where
  "pipeline_disk saved produced t notes trace =
     \<lparr>fs = \<lparr>dirs = [[''/'', ''app''], [''/'', ''app'', ''scripts''], [''/'', ''app'', ''projects''],
                    pipeline_dir,
                    pipeline_dir @ [''inputs''],
                    pipeline_dir @ [''stage_01_keyword_research''],
                    pipeline_dir @ [''stage_02_content_briefs''],
                    pipeline_dir @ [''stage_03_articles''],
                    pipeline_dir @ [''stage_04_social_media''],
                    pipeline_dir @ [''stage_05_youtube''],
                    pipeline_dir @ [''exports'']],
            files = [([''/'', ''app'', ''scripts'', ''KeywordResearcher.py''], Other ''print(0)''),
                     ([''/'', ''app'', ''scripts'', ''ArticleWriter_Claude.py''], Other ''raise SystemExit(1)''),
                     (pipeline_dir @ [''config.json''], ConfigJson (config_data.truncate saved)),
                     (pipeline_dir @ [''inputs'', ''seed_keywords.txt''],
                        Other [CHR ''a'', CHR 0x0A, CHR ''b'', CHR 0x0A]),
                     (pipeline_dir @ [''inputs'', ''settings.json''], SettingsJson default_config)]
                    @ produced\<rparr>,
      cwd = [''/'', ''app''], ticks = t, uuids = 1, notified = notes, invoked = trace\<rparr>"

definition pipeline_disk0 :: world where
  "pipeline_disk0 = pipeline_disk pipeline_project [] 2 [] []"

definition completed_entry :: "string \<Rightarrow> stage_status" where
  "completed_entry t = \<lparr>status = ''completed'', completed_at = Some t, error = None\<rparr>"

definition pipeline_project1 :: ContentProject where
  "pipeline_project1 =
     pipeline_project\<lparr>updated_at := ''2025-01-01T00:00:00.000005'',
       execution_status :=
         [(''keyword_research'', completed_entry ''2025-01-01T00:00:00.000004''),
          (''content_briefs'', pending_status), (''article_writing'', pending_status),
          (''social_media'', pending_status), (''youtube_scripts'', pending_status)],
       output_files :=
         [(''keyword_research'', kr_output_files), (''content_briefs'', []), (''articles'', []),
          (''social_media'', []), (''youtube'', [])]\<rparr>"

definition kr_produced :: "(path \<times> file_content) list" where
  "kr_produced =
     [(pipeline_dir @ [''stage_01_keyword_research'', ''keyword_clusters.csv''], Other ''clusters''),
      (pipeline_dir @ [''stage_01_keyword_research'', ''cluster_summary.csv''], Other ''summary'')]"

definition demo_pid :: string where
  "demo_pid = ''1234abcd-0000-4000-8000-000000000001''"

definition kr_notes :: "(string \<times> string \<times> real \<times> string) list" where
  "kr_notes =
     [(demo_pid, ''keyword_research'', 0, ''Starting stage execution''),
      (demo_pid, ''keyword_research'', 10, ''Setting up keyword research...''),
      (demo_pid, ''keyword_research'', 20, ''Processing 2 seed keywords...''),
      (demo_pid, ''keyword_research'', 30, ''Creating modified script for project...''),
      (demo_pid, ''keyword_research'', 40, ''Executing keyword research script...''),
      (demo_pid, ''keyword_research'', 80, ''Processing results...''),
      (demo_pid, ''keyword_research'', 100, ''Keyword research completed successfully!'')]"

definition pipeline_disk1 :: world where
  "pipeline_disk1 =
     pipeline_disk pipeline_project1 kr_produced 5
       ((demo_pid, ''pipeline'', 0, ''Executing keyword_research'') # kr_notes)
       [''keyword_research'']"

definition pipeline_project2 :: ContentProject where
  "pipeline_project2 =
     pipeline_project1\<lparr>updated_at := ''2025-01-01T00:00:00.000008'',
       execution_status :=
         [(''keyword_research'', completed_entry ''2025-01-01T00:00:00.000004''),
          (''content_briefs'', completed_entry ''2025-01-01T00:00:00.000007''),
          (''article_writing'', pending_status),
          (''social_media'', pending_status), (''youtube_scripts'', pending_status)],
       output_files :=
         [(''keyword_research'', kr_output_files),
          (''content_briefs'', [''stage_02_content_briefs/article_brief.md'']), (''articles'', []),
          (''social_media'', []), (''youtube'', [])]\<rparr>"

definition brief_produced :: "(path \<times> file_content) list" where
  "brief_produced =
     [(pipeline_dir @ [''stage_02_content_briefs'', ''article_brief.md''], Other ''# Article Brief'')]"

definition brief_notes :: "(string \<times> string \<times> real \<times> string) list" where
  "brief_notes =
     [(demo_pid, ''pipeline'', 20, ''Executing content_briefs''),
      (demo_pid, ''content_briefs'', 0, ''Starting stage execution''),
      (demo_pid, ''content_briefs'', 10, ''Setting up article brief generation...''),
      (demo_pid, ''content_briefs'', 50, ''Generating article brief...''),
      (demo_pid, ''content_briefs'', 100, ''Article brief generated successfully!'')]"

definition pipeline_disk2 :: world where
  "pipeline_disk2 =
     pipeline_disk pipeline_project2 (kr_produced @ brief_produced) 8
       (notified pipeline_disk1 @ brief_notes)
       [''keyword_research'', ''content_briefs'']"

definition pipeline_project3 :: ContentProject where
  "pipeline_project3 =
     pipeline_project2\<lparr>updated_at := ''2025-01-01T00:00:00.000010'',
       execution_status :=
         [(''keyword_research'', completed_entry ''2025-01-01T00:00:00.000004''),
          (''content_briefs'', completed_entry ''2025-01-01T00:00:00.000007''),
          (''article_writing'',
             \<lparr>status = ''failed'', completed_at = None, error = Some ''Script execution failed: boom''\<rparr>),
          (''social_media'', pending_status), (''youtube_scripts'', pending_status)]\<rparr>"

definition writer_notes :: "(string \<times> string \<times> real \<times> string) list" where
  "writer_notes =
     [(demo_pid, ''pipeline'', 40, ''Executing article_writing''),
      (demo_pid, ''article_writing'', 0, ''Starting stage execution''),
      (demo_pid, ''article_writing'', 25, ''Executing script''),
      (demo_pid, ''article_writing'', 75, ''Processing outputs'')]"

definition pipeline_disk3 :: world where
  "pipeline_disk3 =
     pipeline_disk pipeline_project3 (kr_produced @ brief_produced) 10
       (notified pipeline_disk2 @ writer_notes)
       [''keyword_research'', ''content_briefs'', ''article_writing'']"

text \<open>Child processes that all exit with 1.\<close>

definition failing_ext :: externals where
  "failing_ext = demo_ext\<lparr>run_process := (\<lambda>script dir project f. (Exited 1 [] ''boom'', f))\<rparr>"

text \<open>
  The project \<open>Demo\<close> and the disk after a run of keyword research in which the script
  exited with 1: the stage is failed, the rewritten script is left behind.
\<close>

definition failed_project :: ContentProject where
  "failed_project =
     pipeline_project\<lparr>updated_at := ''2025-01-01T00:00:00.000004'',
       execution_status :=
         [(''keyword_research'',
             \<lparr>status = ''failed'', completed_at = None,
              error = Some ''Error executing stage: Keyword research execution failed''\<rparr>),
          (''content_briefs'', pending_status), (''article_writing'', pending_status),
          (''social_media'', pending_status), (''youtube_scripts'', pending_status)]\<rparr>"

definition failed_disk :: world where
  "failed_disk =
     pipeline_disk failed_project
       [(pipeline_dir @ [''stage_01_keyword_research'', ''keyword_research_temp.py''], Other ''print(1)'')]
       4
       [(demo_pid, ''keyword_research'', 0, ''Starting stage execution''),
        (demo_pid, ''keyword_research'', 10, ''Setting up keyword research...''),
        (demo_pid, ''keyword_research'', 20, ''Processing 2 seed keywords...''),
        (demo_pid, ''keyword_research'', 30, ''Creating modified script for project...''),
        (demo_pid, ''keyword_research'', 40, ''Executing keyword research script...''),
        (demo_pid, ''keyword_research'', 80, ''Processing results...'')]
       [''keyword_research'']"

section \<open>What each step leaves alone\<close>

lemma get_project_path_status [simp]:
  "execution_status (snd (get_project_path p b)) = execution_status p"
  by (simp add: get_project_path_def Let_def split: option.splits)

lemma save_config_status [simp]:
  "execution_status (fst (snd (save_config p w))) = execution_status p"
  by (simp add: save_config_def Let_def case_prod_beta split: sum.splits)

lemma add_output_file_status [simp]:
  "execution_status (fst (snd (add_output_file ext p w stage f))) = execution_status p"
  by (simp add: add_output_file_def Let_def case_prod_beta now_def split: option.splits)

lemma get_stage_files_status [simp]:
  "execution_status (snd (get_stage_files p w stage)) = execution_status p"
  by (simp add: get_stage_files_def Let_def case_prod_beta split: option.splits sum.splits)

lemma move_expected_status [simp]:
  "execution_status (fst (snd (move_expected ext stage pp sdir outs p w))) = execution_status p"
  by (induction outs arbitrary: p w) (simp_all add: Let_def case_prod_beta split: sum.splits)

lemma move_matched_status [simp]:
  "execution_status (fst (snd (move_matched ext stage sdir srcs p w))) = execution_status p"
  by (induction srcs arbitrary: p w) (simp_all add: Let_def case_prod_beta split: sum.splits)

lemma move_patterns_status [simp]:
  "execution_status (fst (snd (move_patterns ext stage pp sdir pats p w))) = execution_status p"
  by (induction pats arbitrary: p w) (simp_all add: case_prod_beta split: option.splits prod.splits)

lemma organize_stage_outputs_status [simp]:
  "execution_status (fst (snd (organize_stage_outputs ext p w stage))) = execution_status p"
  by (simp add: organize_stage_outputs_def Let_def case_prod_beta split: sum.splits option.splits prod.splits)

lemma keyword_research_body_status [simp]:
  "execution_status (fst (snd (keyword_research_body ext sd p cb w))) = execution_status p"
  by (simp add: keyword_research_body_def Let_def case_prod_beta
       split: option.splits sum.splits proc_outcome.splits)

lemma execute_keyword_research_status [simp]:
  "execution_status (fst (snd (execute_keyword_research ext sd p cb w))) = execution_status p"
  by (simp add: execute_keyword_research_def case_prod_beta split: sum.splits)

lemma article_brief_body_status [simp]:
  "execution_status (fst (snd (article_brief_body ext p cb w))) = execution_status p"
  by (simp add: article_brief_body_def Let_def case_prod_beta split: option.splits sum.splits)

lemma execute_article_brief_status [simp]:
  "execution_status (fst (snd (execute_article_brief ext p cb w))) = execution_status p"
  by (simp add: execute_article_brief_def case_prod_beta split: sum.splits)


section \<open>What a status update changes\<close>

lemma update_stage_status_other:
  "s \<noteq> stage \<Longrightarrow>
     map_of (execution_status (fst (snd (update_stage_status ext p w stage st err)))) s
       = map_of (execution_status p) s"
  by (simp add: update_stage_status_def Let_def case_prod_beta update_conv' split: option.splits)

lemma update_stage_status_has_stage [simp]:
  "has_stage (fst (snd (update_stage_status ext p w stage st err))) s = has_stage p s"
  by (simp add: has_stage_def update_stage_status_def Let_def case_prod_beta update_conv'
       split: option.splits)

lemma update_stage_status_status:
  "has_stage p stage \<Longrightarrow>
     status_or_pending (fst (snd (update_stage_status ext p w stage st err))) stage = st"
  by (auto simp: has_stage_def status_or_pending_def update_stage_status_def Let_def
        case_prod_beta update_conv')

lemma update_stage_status_error:
  "has_stage p stage \<Longrightarrow>
     error_of (fst (snd (update_stage_status ext p w stage st err))) stage
       = (if truthy err then err else error_of p stage)"
  by (auto simp: has_stage_def error_of_def update_stage_status_def Let_def
        case_prod_beta update_conv')

lemma update_stage_status_completed_at:
  "st \<noteq> ''completed'' \<Longrightarrow>
     completed_at_of (fst (snd (update_stage_status ext p w stage st err))) stage
       = completed_at_of p stage"
  by (auto simp: completed_at_of_def update_stage_status_def Let_def
        case_prod_beta update_conv' split: option.splits)

lemma readings_cong:
  "execution_status p' = execution_status p \<Longrightarrow>
     has_stage p' = has_stage p \<and> error_of p' = error_of p
     \<and> status_or_pending p' = status_or_pending p \<and> completed_at_of p' = completed_at_of p
     \<and> stage_completed p' = stage_completed p"
  by (auto simp: has_stage_def error_of_def status_or_pending_def completed_at_of_def
        stage_completed_def fun_eq_iff)

lemmas get_project_path_readings [simp] = readings_cong [OF get_project_path_status]
lemmas save_config_readings [simp] = readings_cong [OF save_config_status]
lemmas add_output_file_readings [simp] = readings_cong [OF add_output_file_status]
lemmas get_stage_files_readings [simp] = readings_cong [OF get_stage_files_status]
lemmas organize_stage_outputs_readings [simp] = readings_cong [OF organize_stage_outputs_status]
lemmas execute_keyword_research_readings [simp] = readings_cong [OF execute_keyword_research_status]
lemmas execute_article_brief_readings [simp] = readings_cong [OF execute_article_brief_status]

section \<open>One stage\<close>

lemma finally_chdir_project [simp]:
  "fst (snd (finally_chdir c r)) = fst (snd r)"
  by (simp add: finally_chdir_def case_prod_beta split: sum.splits)

lemma finally_chdir_result:
  "fst (finally_chdir c r) = Inr res \<Longrightarrow> fst r = Inr res"
  by (simp add: finally_chdir_def case_prod_beta split: sum.splits)

lemma script_exited_other:
  "s \<noteq> stage \<Longrightarrow>
     map_of (execution_status (fst (snd (script_exited ext p w stage rc out err)))) s
       = map_of (execution_status p) s"
  by (simp add: script_exited_def Let_def case_prod_beta update_stage_status_other
       split: sum.splits option.splits)

lemma script_exited_has_stage [simp]:
  "has_stage (fst (snd (script_exited ext p w stage rc out err))) s = has_stage p s"
  by (simp add: script_exited_def Let_def case_prod_beta
       split: sum.splits option.splits)

lemma script_exited_success:
  "fst (script_exited ext p w stage rc out err) = Inr res \<Longrightarrow> success res \<Longrightarrow>
   has_stage p stage \<Longrightarrow>
     status_or_pending (fst (snd (script_exited ext p w stage rc out err))) stage = ''completed''
   \<and> error_of (fst (snd (script_exited ext p w stage rc out err))) stage = error_of p stage"
  by (auto simp: script_exited_def Let_def case_prod_beta update_stage_status_status
        update_stage_status_error truthy_def
       split: sum.splits option.splits if_splits)

lemma script_exited_failure:
  "fst (script_exited ext p w stage rc out err) = Inr res \<Longrightarrow> \<not> success res \<Longrightarrow>
   has_stage p stage \<Longrightarrow>
     status_or_pending (fst (snd (script_exited ext p w stage rc out err))) stage = ''failed''
   \<and> error_of (fst (snd (script_exited ext p w stage rc out err))) stage = Some (message res)
   \<and> message res \<noteq> []"
  by (auto simp: script_exited_def Let_def case_prod_beta update_stage_status_status
        update_stage_status_error truthy_def
       split: sum.splits option.splits if_splits)

lemma run_stage_script_other:
  "s \<noteq> stage \<Longrightarrow>
     map_of (execution_status (fst (snd (run_stage_script ext sp pp p w stage)))) s
       = map_of (execution_status p) s"
  by (simp add: run_stage_script_def Let_def case_prod_beta script_exited_other
       split: sum.splits proc_outcome.splits)

lemma run_stage_script_has_stage [simp]:
  "has_stage (fst (snd (run_stage_script ext sp pp p w stage))) s = has_stage p s"
  by (simp add: run_stage_script_def Let_def case_prod_beta
       split: sum.splits proc_outcome.splits)

lemma run_stage_script_success:
  "fst (run_stage_script ext sp pp p w stage) = Inr res \<Longrightarrow> success res \<Longrightarrow>
   has_stage p stage \<Longrightarrow>
     status_or_pending (fst (snd (run_stage_script ext sp pp p w stage))) stage = ''completed''
   \<and> error_of (fst (snd (run_stage_script ext sp pp p w stage))) stage = error_of p stage"
  by (auto simp: run_stage_script_def Let_def case_prod_beta script_exited_success
       split: sum.splits proc_outcome.splits)

lemma run_stage_script_failure:
  "fst (run_stage_script ext sp pp p w stage) = Inr res \<Longrightarrow> \<not> success res \<Longrightarrow>
   has_stage p stage \<Longrightarrow>
     status_or_pending (fst (snd (run_stage_script ext sp pp p w stage))) stage = ''failed''
   \<and> error_of (fst (snd (run_stage_script ext sp pp p w stage))) stage = Some (message res)
   \<and> message res \<noteq> []"
  by (auto simp: run_stage_script_def Let_def case_prod_beta script_exited_failure
       split: sum.splits proc_outcome.splits)

lemma script_branch_other:
  "s \<noteq> stage \<Longrightarrow>
     map_of (execution_status (fst (snd (script_branch ext sd p w stage)))) s
       = map_of (execution_status p) s"
  by (simp add: script_branch_def Let_def case_prod_beta run_stage_script_other
       split: sum.splits option.splits)

lemma script_branch_has_stage [simp]:
  "has_stage (fst (snd (script_branch ext sd p w stage))) s = has_stage p s"
  by (simp add: script_branch_def Let_def case_prod_beta
       split: sum.splits option.splits)

lemma script_branch_success:
  "fst (script_branch ext sd p w stage) = Inr res \<Longrightarrow> success res \<Longrightarrow>
   has_stage p stage \<Longrightarrow>
     status_or_pending (fst (snd (script_branch ext sd p w stage))) stage = ''completed''
   \<and> error_of (fst (snd (script_branch ext sd p w stage))) stage = error_of p stage"
  by (auto simp: script_branch_def Let_def case_prod_beta run_stage_script_success
       split: sum.splits option.splits if_splits dest!: finally_chdir_result)

lemma script_branch_failure:
  "fst (script_branch ext sd p w stage) = Inr res \<Longrightarrow> \<not> success res \<Longrightarrow>
   has_stage p stage \<Longrightarrow>
     status_or_pending (fst (snd (script_branch ext sd p w stage))) stage = ''failed''
   \<and> error_of (fst (snd (script_branch ext sd p w stage))) stage = Some (message res)
   \<and> message res \<noteq> []"
  by (auto simp: script_branch_def Let_def case_prod_beta run_stage_script_failure
       split: sum.splits option.splits if_splits dest!: finally_chdir_result)

lemma stage_succeeded_other:
  "s \<noteq> stage \<Longrightarrow>
     map_of (execution_status (fst (snd (stage_succeeded ext p w stage)))) s
       = map_of (execution_status p) s"
  by (simp add: stage_succeeded_def Let_def case_prod_beta update_stage_status_other)

lemma stage_succeeded_has_stage [simp]:
  "has_stage (fst (snd (stage_succeeded ext p w stage))) s = has_stage p s"
  by (simp add: stage_succeeded_def Let_def case_prod_beta)

lemma stage_succeeded_result:
  "\<exists>res. fst (stage_succeeded ext p w stage) = Inr res \<and> success res"
  by (simp add: stage_succeeded_def Let_def case_prod_beta completed_result_def)

lemma stage_succeeded_status:
  "has_stage p stage \<Longrightarrow>
     status_or_pending (fst (snd (stage_succeeded ext p w stage))) stage = ''completed''
   \<and> error_of (fst (snd (stage_succeeded ext p w stage))) stage = error_of p stage"
  by (simp add: stage_succeeded_def Let_def case_prod_beta update_stage_status_status
        update_stage_status_error truthy_def)


lemma stage_body_other:
  "s \<noteq> stage \<Longrightarrow>
     map_of (execution_status (fst (snd (stage_body ext sd p w stage)))) s
       = map_of (execution_status p) s"
  by (simp add: stage_body_def Let_def case_prod_beta stage_succeeded_other script_branch_other)

lemma stage_body_has_stage [simp]:
  "has_stage (fst (snd (stage_body ext sd p w stage))) s = has_stage p s"
  by (simp add: stage_body_def Let_def case_prod_beta)

lemma stage_body_success:
  "fst (stage_body ext sd p w stage) = Inr res \<Longrightarrow> success res \<Longrightarrow>
   has_stage p stage \<Longrightarrow>
     status_or_pending (fst (snd (stage_body ext sd p w stage))) stage = ''completed''
   \<and> error_of (fst (snd (stage_body ext sd p w stage))) stage = error_of p stage"
  by (auto simp: stage_body_def Let_def case_prod_beta stage_succeeded_status script_branch_success
       split: if_splits)

lemma stage_body_failure:
  "fst (stage_body ext sd p w stage) = Inr res \<Longrightarrow> \<not> success res \<Longrightarrow>
   has_stage p stage \<Longrightarrow>
     status_or_pending (fst (snd (stage_body ext sd p w stage))) stage = ''failed''
   \<and> error_of (fst (snd (stage_body ext sd p w stage))) stage = Some (message res)
   \<and> message res \<noteq> []"
  using stage_succeeded_result
  by (auto simp: stage_body_def Let_def case_prod_beta script_branch_failure
       split: if_splits) (metis sum.inject(2))+

section \<open>execute_stage\<close>

lemma handler_message_nonempty: "handler_message e \<noteq> []"
  by (cases e) (simp_all add: handler_message_def)

lemma execute_stage_other:
  "s \<noteq> stage \<Longrightarrow>
     map_of (execution_status (fst (snd (execute_stage ext sd p w stage force)))) s
       = map_of (execution_status p) s"
  by (simp add: execute_stage_def Let_def case_prod_beta stage_body_other update_stage_status_other
       split: sum.splits)

lemma execute_stage_has_stage [simp]:
  "has_stage (fst (snd (execute_stage ext sd p w stage force))) s = has_stage p s"
  by (simp add: execute_stage_def Let_def case_prod_beta split: sum.splits)

lemma stage_completed_status:
  "stage_completed p stage \<Longrightarrow> status_or_pending p stage = ''completed''"
  by (simp add: stage_completed_def status_or_pending_def split: option.splits)

lemma execute_stage_success:
  "fst (execute_stage ext sd p w stage force) = Inr res \<Longrightarrow> success res \<Longrightarrow>
   has_stage p stage \<Longrightarrow>
     status_or_pending (fst (snd (execute_stage ext sd p w stage force))) stage = ''completed''
   \<and> error_of (fst (snd (execute_stage ext sd p w stage force))) stage = error_of p stage"
  by (auto simp: execute_stage_def Let_def case_prod_beta stage_completed_status
        stage_body_success update_stage_status_error truthy_def failed_result_def
       split: sum.splits if_splits)

lemma execute_stage_failure:
  "fst (execute_stage ext sd p w stage force) = Inr res \<Longrightarrow> \<not> success res \<Longrightarrow>
   has_stage p stage \<Longrightarrow>
     status_or_pending (fst (snd (execute_stage ext sd p w stage force))) stage = ''failed''
   \<and> error_of (fst (snd (execute_stage ext sd p w stage force))) stage = Some (message res)
   \<and> message res \<noteq> []"
  by (auto simp: execute_stage_def Let_def case_prod_beta handler_message_nonempty
        stage_body_failure update_stage_status_error update_stage_status_status
        truthy_def failed_result_def
       split: sum.splits if_splits)


section \<open>Dependency gating\<close>

lemma check_dependencies_true:
  "fst (check_dependencies project ds) \<longleftrightarrow>
     (\<forall>d \<in> set ds. status_or_pending project d = ''completed'')"
  by (induction ds) (auto simp: Let_def)

lemma check_dependencies_reason:
  "\<not> fst (check_dependencies project ds) \<Longrightarrow>
     \<exists>pre d post. ds = pre @ d # post
       \<and> (\<forall>e \<in> set pre. status_or_pending project e = ''completed'')
       \<and> status_or_pending project d \<noteq> ''completed''
       \<and> snd (check_dependencies project ds) =
           ''Dependency '' @ d @ '' not completed (status: '' @ status_or_pending project d @ '')''"
proof (induction ds)
  case Nil
  then show ?case by simp
next
  case (Cons a ds)
  show ?case
  proof (cases "status_or_pending project a = ''completed''")
    case True
    with Cons.prems have "\<not> fst (check_dependencies project ds)"
      by (simp add: Let_def)
    from Cons.IH [OF this] obtain pre d post where
      h: "ds = pre @ d # post"
         "\<forall>e \<in> set pre. status_or_pending project e = ''completed''"
         "status_or_pending project d \<noteq> ''completed''"
         "snd (check_dependencies project ds) =
           ''Dependency '' @ d @ '' not completed (status: '' @ status_or_pending project d @ '')''"
      by blast
    have "a # ds = (a # pre) @ d # post" using h(1) by simp
    moreover have "\<forall>e \<in> set (a # pre). status_or_pending project e = ''completed''"
      using h(2) True by simp
    moreover have "snd (check_dependencies project (a # ds)) =
           ''Dependency '' @ d @ '' not completed (status: '' @ status_or_pending project d @ '')''"
      using h(4) True by (simp add: Let_def)
    ultimately show ?thesis using h(3) by blast
  next
    case False
    have "a # ds = [] @ a # ds" by simp
    moreover have "snd (check_dependencies project (a # ds)) =
           ''Dependency '' @ a @ '' not completed (status: '' @ status_or_pending project a @ '')''"
      using False by (simp add: Let_def)
    ultimately show ?thesis using False by (metis empty_iff empty_set)
  qed
qed

lemma demo_project_value:
  "demo_project =
     \<lparr>project_id = ''1234abcd-0000-4000-8000-000000000001'', name = ''Demo'', description = [],
      created_at = ''2025-01-01T00:00:00.000001'', updated_at = ''2025-01-01T00:00:00.000002'',
      config = default_config,
      input_data = \<lparr>seed_keywords = [], target_audience = [], custom_instructions = []\<rparr>,
      execution_status = default_execution_status,
      output_files = default_output_files,
      project_path = None\<rparr>"
  by (simp add: demo_project_def ContentProject_init_def demo_ext_def demo_world_def
        new_uuid_def now_def Let_def demo_counter_def)

text \<open>
  Claim C2. \<open>can_execute_stage\<close> answers True exactly when every dependency of the stage
  in the fixed table has status completed; when it answers False the reason names the
  first dependency that is not completed, with its status. The dependencies of
  \<open>youtube_scripts\<close> are keyword research, content briefs and article writing, and
  \<open>social_media\<close> is not among them.
\<close>

theorem can_execute_stage_gating:
  "(fst (can_execute_stage project S) \<longleftrightarrow>
      (\<forall>d \<in> set (dependencies_of S). status_or_pending project d = ''completed''))
   \<and> (\<not> fst (can_execute_stage project S) \<longrightarrow>
        (\<exists>pre d post. dependencies_of S = pre @ d # post
           \<and> (\<forall>e \<in> set pre. status_or_pending project e = ''completed'')
           \<and> status_or_pending project d \<noteq> ''completed''
           \<and> snd (can_execute_stage project S) =
               ''Dependency '' @ d @ '' not completed (status: '' @ status_or_pending project d @ '')''))
   \<and> dependencies_of ''youtube_scripts'' = [''keyword_research'', ''content_briefs'', ''article_writing'']
   \<and> ''social_media'' \<notin> set (dependencies_of ''youtube_scripts'')"
proof -
  have a: "fst (can_execute_stage project S) \<longleftrightarrow>
      (\<forall>d \<in> set (dependencies_of S). status_or_pending project d = ''completed'')"
    unfolding can_execute_stage_def by (rule check_dependencies_true)
  have b: "\<not> fst (can_execute_stage project S) \<longrightarrow>
        (\<exists>pre d post. dependencies_of S = pre @ d # post
           \<and> (\<forall>e \<in> set pre. status_or_pending project e = ''completed'')
           \<and> status_or_pending project d \<noteq> ''completed''
           \<and> snd (can_execute_stage project S) =
               ''Dependency '' @ d @ '' not completed (status: '' @ status_or_pending project d @ '')'')"
    unfolding can_execute_stage_def using check_dependencies_reason by blast
  have c: "dependencies_of ''youtube_scripts'' = [''keyword_research'', ''content_briefs'', ''article_writing'']"
    by (simp add: dependencies_of_def stage_dependencies_def)
  have d: "''social_media'' \<notin> set (dependencies_of ''youtube_scripts'')"
    unfolding c by simp
  from a b c d show ?thesis by blast
qed

lemma kr_done_status:
  "status_or_pending demo_project_kr_done ''keyword_research'' = ''completed''"
  "status_or_pending demo_project_kr_done ''content_briefs'' = ''pending''"
  by (simp_all add: demo_project_kr_done_def demo_project_value status_or_pending_def
        default_execution_status_def pending_status_def)

theorem can_execute_stage_gating_witness:
  "\<not> fst (can_execute_stage demo_project_kr_done ''article_writing'')
   \<and> snd (can_execute_stage demo_project_kr_done ''article_writing'') =
       ''Dependency content_briefs not completed (status: pending)''
   \<and> fst (can_execute_stage demo_project_kr_done ''content_briefs'')"
proof -
  have deps: "dependencies_of ''article_writing'' = [''keyword_research'', ''content_briefs'']"
             "dependencies_of ''content_briefs'' = [''keyword_research'']"
    by (simp_all add: dependencies_of_def stage_dependencies_def)
  have n: "\<not> (\<forall>d \<in> set (dependencies_of ''article_writing'').
                status_or_pending demo_project_kr_done d = ''completed'')"
    by (simp add: deps kr_done_status)
  have y: "\<forall>d \<in> set (dependencies_of ''content_briefs'').
                status_or_pending demo_project_kr_done d = ''completed''"
    by (simp add: deps kr_done_status)
  from can_execute_stage_gating [of demo_project_kr_done "''article_writing''"] n
  have f: "\<not> fst (can_execute_stage demo_project_kr_done ''article_writing'')" by blast
  with can_execute_stage_gating [of demo_project_kr_done "''article_writing''"]
  obtain pre d post where h:
    "dependencies_of ''article_writing'' = pre @ d # post"
    "\<forall>e \<in> set pre. status_or_pending demo_project_kr_done e = ''completed''"
    "status_or_pending demo_project_kr_done d \<noteq> ''completed''"
    "snd (can_execute_stage demo_project_kr_done ''article_writing'') =
       ''Dependency '' @ d @ '' not completed (status: '' @ status_or_pending demo_project_kr_done d @ '')''"
    by blast
  have "d = ''content_briefs''"
  proof -
    from h(1) have "d \<in> set [''keyword_research'', ''content_briefs'']"
      unfolding deps by (metis in_set_conv_decomp)
    with h(3) show ?thesis by (auto simp: kr_done_status)
  qed
  with h(4) have m: "snd (can_execute_stage demo_project_kr_done ''article_writing'') =
       ''Dependency content_briefs not completed (status: pending)''"
    by (simp add: kr_done_status)
  from can_execute_stage_gating [of demo_project_kr_done "''content_briefs''"] y
  have "fst (can_execute_stage demo_project_kr_done ''content_briefs'')" by blast
  with f m show ?thesis by blast
qed

section \<open>Progress values\<close>

text \<open>
  Claim C4, as the code has it. \<open>update_progress\<close> stores, as the latest update of the
  project and stage, the published value clamped into the range from 0 to 100, for every
  published value: there is no exception for -1.
\<close>

theorem update_progress_clamps_all:
  "\<exists>d u. map_of (progress_data (update_progress self t pid stage p msg)) pid = Some d
         \<and> map_of d stage = Some u
         \<and> pu_progress u = max 0 (min 100 p)
         \<and> 0 \<le> pu_progress u \<and> pu_progress u \<le> 100"
  by (auto simp: update_progress_def Let_def update_conv' split: option.splits)

text \<open>Publishing -1 stores 0: the sentinel is not preserved.\<close>

theorem update_progress_sentinel_counterexample:
  "get_progress (update_progress empty_tracker 0 ''p1'' ''keyword_research'' (- 1) ''Operation failed'')
       ''p1'' (Some ''keyword_research'')
     = Some \<lparr>pu_project_id = ''p1'', pu_stage = ''keyword_research'', pu_progress = 0,
             pu_message = ''Operation failed'', pu_timestamp = 0\<rparr>
   \<and> (0::real) \<noteq> - 1"
  by (simp add: update_progress_def get_progress_def empty_tracker_def truthy_def Let_def)

section \<open>Cleaning up finished operations\<close>

text \<open>
  Claim C5 at a concrete tracker: one finished operation (progress 100) stamped 48 hours
  before the call, and a bound of 24 hours. \<open>cleanup_completed\<close> raises AttributeError
  and the entry stays.
\<close>

theorem cleanup_completed_raises:
  "cleanup_completed demo_tracker (48 * 3600 * 1000000) 24 =
     Inl (AttributeError (''module '' @ [CHR 0x27] @ ''time'' @ [CHR 0x27]
            @ '' has no attribute '' @ [CHR 0x27] @ ''timedelta'' @ [CHR 0x27]))
   \<and> get_progress demo_tracker ''p1'' (Some ''keyword_research'') \<noteq> None"
  by (simp add: cleanup_completed_def time_timedelta_def get_progress_def demo_tracker_def truthy_def)

section \<open>Recording output files\<close>

text \<open>For a stage that is a key of \<open>output_files\<close>, a new path is appended and True returned.\<close>

lemma add_output_file_known_stage:
  "map_of (output_files p) stage = Some fls \<Longrightarrow> f \<notin> set fls \<Longrightarrow>
     fst (add_output_file ext p w stage f)
     \<and> output_files_get (fst (snd (add_output_file ext p w stage f))) stage = fls @ [f]"
  by (simp add: add_output_file_def output_files_get_def save_config_def get_project_path_def
        Let_def case_prod_beta now_def update_conv' split: option.splits sum.splits)

text \<open>
  Claim C6 at a project as the constructor makes it: \<open>add_output_file\<close> for the stages
  \<open>article_writing\<close> and \<open>youtube_scripts\<close> returns False and records nothing, because
  \<open>output_files\<close> has the keys \<open>articles\<close> and \<open>youtube\<close> instead.
\<close>

theorem add_output_file_article_writing_rejected:
  "add_output_file demo_ext demo_project demo_world ''article_writing'' ''stage_03_articles/article_draft.md''
     = (False, demo_project, demo_world)
   \<and> add_output_file demo_ext demo_project demo_world ''youtube_scripts'' ''stage_05_youtube/youtube_script.md''
     = (False, demo_project, demo_world)
   \<and> map_of (output_files demo_project) ''article_writing'' = None
   \<and> map_of (output_files demo_project) ''youtube_scripts'' = None"
  by (simp add: add_output_file_def demo_project_value default_output_files_def)


section \<open>The pipeline stops at the first failure\<close>

lemma stages_zip: "zip [0 ..< length stages] stages =
   [(0, ''keyword_research''), (1, ''content_briefs''), (2, ''article_writing''),
    (3, ''social_media''), (4, ''youtube_scripts'')]"
  by (simp add: stages_def upt_rec numeral_eq_Suc)

lemma other_readings:
  "map_of (execution_status p') s = map_of (execution_status p) s \<Longrightarrow>
     status_or_pending p' s = status_or_pending p s \<and> error_of p' s = error_of p s
     \<and> completed_at_of p' s = completed_at_of p s \<and> has_stage p' s = has_stage p s"
  by (simp add: status_or_pending_def error_of_def completed_at_of_def has_stage_def)

text \<open>
  Claim C3. A pipeline run from the first stage in which the run of keyword research
  and then the run of content briefs return success and the run of article writing
  returns a failure stops there: the result is a failure that holds the three stage
  results in order, the first two stages are completed, the third is failed with the
  message of its result as its error, and the state returned is the state after the
  third stage with the closing notification added, so that social media and YouTube
  scripts were never started (no executor is entered after the third stage); their
  status entries are as they were.
\<close>

theorem pipeline_fail_fast:
  assumes keys: "has_stage project ''keyword_research''" "has_stage project ''content_briefs''"
      "has_stage project ''article_writing''"
    and s1: "execute_stage ext sd project
               (notify_progress (project_id project) ''pipeline'' 0 ''Executing keyword_research'' w)
               ''keyword_research'' force = (Inr r1, p1, w1)"
    and ok1: "success r1"
    and s2: "execute_stage ext sd p1
               (notify_progress (project_id p1) ''pipeline'' 20 ''Executing content_briefs'' w1)
               ''content_briefs'' force = (Inr r2, p2, w2)"
    and ok2: "success r2"
    and s3: "execute_stage ext sd p2
               (notify_progress (project_id p2) ''pipeline'' 40 ''Executing article_writing'' w2)
               ''article_writing'' force = (Inr r3, p3, w3)"
    and bad3: "\<not> success r3"
  shows "execute_full_pipeline ext sd project w None force =
           (Inr \<lparr>pr_success = False,
                 pr_results = [(''keyword_research'', r1), (''content_briefs'', r2),
                               (''article_writing'', r3)],
                 pr_project_id = project_id p3\<rparr>,
            p3,
            notify_progress (project_id p3) ''pipeline'' 100 ''Pipeline execution failed'' w3)
         \<and> status_or_pending p3 ''keyword_research'' = ''completed''
         \<and> status_or_pending p3 ''content_briefs'' = ''completed''
         \<and> status_or_pending p3 ''article_writing'' = ''failed''
         \<and> error_of p3 ''article_writing'' = Some (message r3) \<and> message r3 \<noteq> []
         \<and> map_of (execution_status p3) ''social_media'' = map_of (execution_status project) ''social_media''
         \<and> map_of (execution_status p3) ''youtube_scripts'' = map_of (execution_status project) ''youtube_scripts''
         \<and> invoked (snd (snd (execute_full_pipeline ext sd project w None force))) = invoked w3"
proof -
  have run: "execute_full_pipeline ext sd project w None force =
           (Inr \<lparr>pr_success = False,
                 pr_results = [(''keyword_research'', r1), (''content_briefs'', r2),
                               (''article_writing'', r3)],
                 pr_project_id = project_id p3\<rparr>,
            p3,
            notify_progress (project_id p3) ''pipeline'' 100 ''Pipeline execution failed'' w3)"
    using s1 ok1 s2 ok2 s3 bad3
    by (simp add: execute_full_pipeline_def stages_zip Let_def) (simp add: stages_def)
  have p1: "p1 = fst (snd (execute_stage ext sd project
               (notify_progress (project_id project) ''pipeline'' 0 ''Executing keyword_research'' w)
               ''keyword_research'' force))"
    and f1: "fst (execute_stage ext sd project
               (notify_progress (project_id project) ''pipeline'' 0 ''Executing keyword_research'' w)
               ''keyword_research'' force) = Inr r1"
    using s1 by simp_all
  have p2: "p2 = fst (snd (execute_stage ext sd p1
               (notify_progress (project_id p1) ''pipeline'' 20 ''Executing content_briefs'' w1)
               ''content_briefs'' force))"
    and f2: "fst (execute_stage ext sd p1
               (notify_progress (project_id p1) ''pipeline'' 20 ''Executing content_briefs'' w1)
               ''content_briefs'' force) = Inr r2"
    using s2 by simp_all
  have p3: "p3 = fst (snd (execute_stage ext sd p2
               (notify_progress (project_id p2) ''pipeline'' 40 ''Executing article_writing'' w2)
               ''article_writing'' force))"
    and f3: "fst (execute_stage ext sd p2
               (notify_progress (project_id p2) ''pipeline'' 40 ''Executing article_writing'' w2)
               ''article_writing'' force) = Inr r3"
    using s3 by simp_all
  have k1: "has_stage p1 ''content_briefs''" "has_stage p1 ''article_writing''"
    using keys by (simp_all add: p1)
  have k2: "has_stage p2 ''article_writing''"
    using k1 by (simp add: p2)
  have a1: "status_or_pending p1 ''keyword_research'' = ''completed''"
    using execute_stage_success [OF f1 ok1 keys(1)] by (simp add: p1)
  have o2: "\<And>s. s \<noteq> ''content_briefs'' \<Longrightarrow> map_of (execution_status p2) s = map_of (execution_status p1) s"
    unfolding p2 by (rule execute_stage_other)
  have o3: "\<And>s. s \<noteq> ''article_writing'' \<Longrightarrow> map_of (execution_status p3) s = map_of (execution_status p2) s"
    unfolding p3 by (rule execute_stage_other)
  have o1: "\<And>s. s \<noteq> ''keyword_research'' \<Longrightarrow> map_of (execution_status p1) s = map_of (execution_status project) s"
    unfolding p1 by (rule execute_stage_other)
  have a2: "status_or_pending p2 ''content_briefs'' = ''completed''"
    using execute_stage_success [OF f2 ok2 k1(1)] by (simp add: p2)
  have a3: "status_or_pending p3 ''article_writing'' = ''failed''"
      "error_of p3 ''article_writing'' = Some (message r3)" "message r3 \<noteq> []"
    using execute_stage_failure [OF f3 bad3 k2] by (simp_all add: p3)
  have b1: "status_or_pending p3 ''keyword_research'' = ''completed''"
    using a1 o2 [of "''keyword_research''"] o3 [of "''keyword_research''"]
    by (simp add: status_or_pending_def)
  have b2: "status_or_pending p3 ''content_briefs'' = ''completed''"
    using a2 o3 [of "''content_briefs''"] by (simp add: status_or_pending_def)
  have c1: "map_of (execution_status p3) ''social_media'' = map_of (execution_status project) ''social_media''"
    using o1 [of "''social_media''"] o2 [of "''social_media''"] o3 [of "''social_media''"] by simp
  have c2: "map_of (execution_status p3) ''youtube_scripts'' = map_of (execution_status project) ''youtube_scripts''"
    using o1 [of "''youtube_scripts''"] o2 [of "''youtube_scripts''"] o3 [of "''youtube_scripts''"] by simp
  have d: "invoked (snd (snd (execute_full_pipeline ext sd project w None force))) = invoked w3"
    unfolding run by (simp add: notify_progress_def)
  from run b1 b2 a3 c1 c2 d show ?thesis by blast
qed


section \<open>Creating and loading projects\<close>

lemmas fs_defs = is_absolute_def resolve_def is_dir_abs_def is_file_abs_def path_is_dir_def
  path_is_file_def path_exists_def mkdir_def mkdir_parents_def write_file_def read_file_def
  entry_names_def iterdir_def unlink_def chdir_def path_name_def path_str_def

lemmas project_defs = ContentProject_init_def new_uuid_def now_def slug_def lower_def char_lower_def
  replace_char_def project_folder_name_def get_project_path_def save_config_def save_inputs_def
  create_project_structure_def subdirs_def keyword_lines_def load_from_config_def
  default_config_def default_execution_status_def default_output_files_def pending_status_def
  config_data.defs ContentProject.defs

lemmas demo_defs = demo_ext_def demo_world_def demo_manager_def demo_scripts_dir_def
  demo_counter_def demo_run_process_def

lemma demo_created_value:
  "demo_created =
     (Inr demo_created_project,
      \<lparr>projects_base_dir = [''projects''],
       project_cache = [(''1234abcd-0000-4000-8000-000000000001'', demo_created_project)]\<rparr>,
      demo_disk)"
  by (simp add: demo_created_def demo_created_project_def demo_disk_def create_project_def
        fs_defs project_defs demo_defs Let_def numeral_2_eq_2)

lemma underscore_created_value:
  "underscore_created =
     (Inr underscore_project,
      \<lparr>projects_base_dir = [''projects''],
       project_cache = [(''1234abcd-0000-4000-8000-000000000001'', underscore_project)]\<rparr>,
      underscore_disk)"
  by (simp add: underscore_created_def underscore_project_def demo_created_project_def
        underscore_disk_def create_project_def
        fs_defs project_defs demo_defs Let_def numeral_2_eq_2)

text \<open>
  Claim C8 at the project \<open>Demo\<close> that \<open>create_project\<close> has just written: its
  directory exists, its \<open>config.json\<close> loads and passes the validation, and
  \<open>load_project\<close> by its id, on a newly constructed manager, returns None. The scan
  asks whether the whole id occurs in the directory name, which holds its first eight
  characters only.
\<close>

theorem load_project_fresh_manager_returns_none:
  "ProjectManager_init demo_disk [''projects''] = (Inr demo_manager, demo_disk)
   \<and> demo_created =
     (Inr demo_created_project,
      \<lparr>projects_base_dir = [''projects''],
       project_cache = [(project_id demo_created_project, demo_created_project)]\<rparr>,
      demo_disk)
   \<and> path_is_dir demo_disk [''projects'', project_folder_name demo_created_project]
   \<and> fst (load_from_config demo_ext demo_disk [''projects'', project_folder_name demo_created_project])
        = Some demo_created_project
   \<and> validate_project demo_created_project
   \<and> load_project demo_ext demo_manager demo_disk (project_id demo_created_project)
        = (None, demo_manager, demo_disk)
   \<and> \<not> is_substring (project_id demo_created_project) (project_folder_name demo_created_project)"
proof -
  have a: "path_is_dir demo_disk [''projects'', project_folder_name demo_created_project]"
    by (simp add: demo_created_project_def demo_disk_def fs_defs project_defs)
  have b: "fst (load_from_config demo_ext demo_disk [''projects'', project_folder_name demo_created_project])
        = Some demo_created_project"
    by (simp add: demo_created_project_def demo_disk_def fs_defs project_defs demo_defs Let_def)
  have c: "validate_project demo_created_project"
    by (simp add: validate_project_def demo_created_project_def expected_stages_def project_defs)
  have d: "load_project demo_ext demo_manager demo_disk (project_id demo_created_project)
        = (None, demo_manager, demo_disk)"
    by (simp add: demo_created_project_def demo_disk_def load_project_def validate_project_def
          fs_defs project_defs demo_defs Let_def)
  have e: "\<not> is_substring (project_id demo_created_project) (project_folder_name demo_created_project)"
    by (simp add: demo_created_project_def project_defs)
  have f: "project_id demo_created_project = ''1234abcd-0000-4000-8000-000000000001''"
    by (simp add: demo_created_project_def)
  have g: "ProjectManager_init demo_disk [''projects''] = (Inr demo_manager, demo_disk)"
    by (simp add: ProjectManager_init_def demo_manager_def demo_disk_def fs_defs)
  show ?thesis using demo_created_value a b c d e g by (simp only: f simp_thms)
qed

text \<open>
  Claim C9 at the name \<open>my_project\<close>: \<open>create_project\<close> returns the project and
  caches it, and \<open>load_project\<close> by its id, on that very manager and disk, returns None.
  The check of the cached entry derives the directory name without turning the
  underscore into a hyphen, finds no such directory and drops the entry; the scan that
  follows looks for the whole id in the directory names.
\<close>

theorem load_after_create_underscore_returns_none:
  "underscore_created =
     (Inr underscore_project,
      \<lparr>projects_base_dir = [''projects''],
       project_cache = [(project_id underscore_project, underscore_project)]\<rparr>,
      underscore_disk)
   \<and> name underscore_project = ''my_project''
   \<and> project_folder_name underscore_project = ''project-1234abcd-my-project''
   \<and> \<not> project_exists_on_filesystem (fst (snd underscore_created)) underscore_disk underscore_project
   \<and> load_project demo_ext (fst (snd underscore_created)) underscore_disk (project_id underscore_project)
        = (None, demo_manager, underscore_disk)"
proof -
  have f: "project_id underscore_project = ''1234abcd-0000-4000-8000-000000000001''"
    by (simp add: underscore_project_def demo_created_project_def)
  have a: "name underscore_project = ''my_project''"
    by (simp add: underscore_project_def)
  have b: "project_folder_name underscore_project = ''project-1234abcd-my-project''"
    by (simp add: underscore_project_def demo_created_project_def project_defs)
  have c: "\<not> project_exists_on_filesystem (fst (snd underscore_created)) underscore_disk underscore_project"
    unfolding underscore_created_value
    by (simp add: project_exists_on_filesystem_def underscore_project_def demo_created_project_def
          underscore_disk_def fs_defs project_defs)
  have d: "load_project demo_ext (fst (snd underscore_created)) underscore_disk (project_id underscore_project)
        = (None, demo_manager, underscore_disk)"
    unfolding underscore_created_value
    by (simp add: load_project_def project_exists_on_filesystem_def underscore_project_def
          demo_created_project_def underscore_disk_def validate_project_def
          fs_defs project_defs demo_defs Let_def)
  show ?thesis using underscore_created_value a b c d by (simp only: f simp_thms)
qed

text \<open>For a name without an underscore the cached object comes back as created.\<close>

lemma load_after_create_demo:
  "load_project demo_ext (fst (snd demo_created)) demo_disk (project_id demo_created_project)
     = (Some demo_created_project, fst (snd demo_created), demo_disk)"
  unfolding demo_created_value
  by (simp add: load_project_def project_exists_on_filesystem_def demo_created_project_def
        demo_disk_def fs_defs project_defs)


section \<open>A pipeline run on disk\<close>

lemma funpow_numeral: "(f ^^ numeral k) x = f ((f ^^ pred_numeral k) x)"
  by (simp add: numeral_eq_Suc)

lemmas stage_defs = execute_stage_def stage_body_def stage_succeeded_def script_branch_def
  run_stage_script_def script_exited_def finally_chdir_def handler_message_def failed_result_def
  completed_result_def output_files_get_def stage_completed_def update_stage_status_def truthy_def
  notify_progress_def execute_keyword_research_def keyword_research_body_def
  execute_article_brief_def article_brief_body_def kr_output_files_def get_script_path_def
  stage_scripts_def content_generator_of_def entry_truthy_def get_stage_files_def stage_map_def
  organize_stage_outputs_def

lemmas pipeline_state_defs = pipeline_project_def pipeline_project1_def pipeline_project2_def
  pipeline_project3_def pipeline_disk_def pipeline_disk0_def pipeline_disk1_def pipeline_disk2_def
  pipeline_disk3_def pipeline_dir_def kr_produced_def brief_produced_def kr_notes_def brief_notes_def
  writer_notes_def demo_pid_def completed_entry_def demo_created_project_def

lemma pipeline_created:
  "create_project demo_ext pipeline_manager pipeline_world ''Demo'' ''A demo'' (Some [''a'', ''b'']) None
     = (Inr pipeline_project,
        pipeline_manager\<lparr>project_cache := [(demo_pid, pipeline_project)]\<rparr>,
        pipeline_disk0)"
  by (simp add: create_project_def pipeline_world_def pipeline_manager_def pipeline_state_defs
        fs_defs project_defs demo_defs Let_def funpow_numeral)

lemma pipeline_run1:
  "execute_stage demo_ext demo_scripts_dir pipeline_project
     (notify_progress (project_id pipeline_project) ''pipeline'' 0 ''Executing keyword_research'' pipeline_disk0)
     ''keyword_research'' False
   = (Inr (completed_result ''keyword_research'' kr_output_files), pipeline_project1, pipeline_disk1)"
  by (simp add: stage_defs pipeline_state_defs fs_defs project_defs demo_defs Let_def funpow_numeral
        str_nat.simps)


lemma pipeline_run2:
  "execute_stage demo_ext demo_scripts_dir pipeline_project1
     (notify_progress (project_id pipeline_project1) ''pipeline'' 20 ''Executing content_briefs'' pipeline_disk1)
     ''content_briefs'' False
   = (Inr (completed_result ''content_briefs'' [''stage_02_content_briefs/article_brief.md'']),
      pipeline_project2, pipeline_disk2)"
  by (simp add: stage_defs pipeline_state_defs fs_defs project_defs demo_defs Let_def funpow_numeral)

lemma pipeline_run3:
  "execute_stage demo_ext demo_scripts_dir pipeline_project2
     (notify_progress (project_id pipeline_project2) ''pipeline'' 40 ''Executing article_writing'' pipeline_disk2)
     ''article_writing'' False
   = (Inr \<lparr>success = False, message = ''Script execution failed: boom'', outputs = None,
            stdout = Some [], stderr = Some ''boom''\<rparr>,
      pipeline_project3, pipeline_disk3)"
  by (simp add: stage_defs pipeline_state_defs fs_defs project_defs demo_defs Let_def funpow_numeral)


text \<open>
  The pipeline run on the project \<open>Demo\<close>: keyword research and content briefs succeed,
  the article writer exits with 1.
\<close>

theorem pipeline_fail_fast_witness:
  "execute_full_pipeline demo_ext demo_scripts_dir pipeline_project pipeline_disk0 None False =
     (Inr \<lparr>pr_success = False,
           pr_results =
             [(''keyword_research'', completed_result ''keyword_research'' kr_output_files),
              (''content_briefs'',
                 completed_result ''content_briefs'' [''stage_02_content_briefs/article_brief.md'']),
              (''article_writing'',
                 \<lparr>success = False, message = ''Script execution failed: boom'', outputs = None,
                  stdout = Some [], stderr = Some ''boom''\<rparr>)],
           pr_project_id = demo_pid\<rparr>,
      pipeline_project3,
      notify_progress demo_pid ''pipeline'' 100 ''Pipeline execution failed'' pipeline_disk3)
   \<and> status_or_pending pipeline_project3 ''keyword_research'' = ''completed''
   \<and> status_or_pending pipeline_project3 ''content_briefs'' = ''completed''
   \<and> status_or_pending pipeline_project3 ''article_writing'' = ''failed''
   \<and> error_of pipeline_project3 ''article_writing'' = Some ''Script execution failed: boom''
   \<and> status_or_pending pipeline_project3 ''social_media'' = ''pending''
   \<and> status_or_pending pipeline_project3 ''youtube_scripts'' = ''pending''
   \<and> invoked (snd (snd (execute_full_pipeline demo_ext demo_scripts_dir pipeline_project
                              pipeline_disk0 None False)))
       = [''keyword_research'', ''content_briefs'', ''article_writing'']"
proof -
  have keys: "has_stage pipeline_project ''keyword_research''"
      "has_stage pipeline_project ''content_briefs''" "has_stage pipeline_project ''article_writing''"
    by (simp_all add: has_stage_def pipeline_project_def demo_created_project_def
          default_execution_status_def)
  have ok1: "success (completed_result ''keyword_research'' kr_output_files)"
    and ok2: "success (completed_result ''content_briefs'' [''stage_02_content_briefs/article_brief.md''])"
    by (simp_all add: completed_result_def)
  have bad3: "\<not> success \<lparr>success = False, message = ''Script execution failed: boom'', outputs = None,
                  stdout = Some [], stderr = Some ''boom''\<rparr>"
    by simp
  have pid: "project_id pipeline_project3 = demo_pid"
    by (simp add: pipeline_state_defs)
  have pend: "status_or_pending pipeline_project3 ''social_media'' = ''pending''"
      "status_or_pending pipeline_project3 ''youtube_scripts'' = ''pending''"
    by (simp_all add: status_or_pending_def pipeline_state_defs pending_status_def)
  have inv: "invoked pipeline_disk3 = [''keyword_research'', ''content_briefs'', ''article_writing'']"
    by (simp add: pipeline_disk3_def pipeline_disk_def)
  from pipeline_fail_fast [OF keys pipeline_run1 ok1 pipeline_run2 ok2 pipeline_run3 bad3] pend
  show ?thesis by (simp add: pid inv notify_progress_def)
qed


section \<open>The error field is never cleared\<close>

lemma failing_run:
  "execute_stage failing_ext demo_scripts_dir pipeline_project pipeline_disk0 ''keyword_research'' False
     = (Inr (failed_result ''Error executing stage: Keyword research execution failed''),
        failed_project, failed_disk)"
  by (simp add: stage_defs pipeline_state_defs failed_project_def failed_disk_def failing_ext_def
        fs_defs project_defs demo_defs Let_def funpow_numeral str_nat.simps)

lemma forced_run:
  "fst (execute_stage demo_ext demo_scripts_dir failed_project failed_disk ''keyword_research'' True)
     = Inr (completed_result ''keyword_research'' kr_output_files)"
  by (simp add: stage_defs pipeline_state_defs failed_project_def failed_disk_def
        fs_defs project_defs demo_defs Let_def funpow_numeral str_nat.simps)

text \<open>
  Claim C10. On a stage that the project has, \<open>update_stage_status\<close> with no error
  argument leaves the recorded error as it is, whatever the new status; with an
  argument it writes the new error only if that is a non-empty string; so a recorded
  error is never removed. A run of the stage that returns success, forced or not, ends
  with status completed and the error that was recorded before.
\<close>

theorem update_stage_status_keeps_error:
  assumes "has_stage project stage"
  shows "error_of (fst (snd (update_stage_status ext project w stage st None))) stage
           = error_of project stage
       \<and> error_of (fst (snd (update_stage_status ext project w stage st err))) stage
           = (if truthy err then err else error_of project stage)
       \<and> (error_of project stage \<noteq> None \<longrightarrow>
            error_of (fst (snd (update_stage_status ext project w stage st err))) stage \<noteq> None)
       \<and> (fst (execute_stage ext sd project w stage force) = Inr res \<and> success res \<longrightarrow>
            status_or_pending (fst (snd (execute_stage ext sd project w stage force))) stage = ''completed''
            \<and> error_of (fst (snd (execute_stage ext sd project w stage force))) stage
                = error_of project stage)"
proof -
  have a: "error_of (fst (snd (update_stage_status ext project w stage st None))) stage
           = error_of project stage"
    using assms by (simp add: update_stage_status_error truthy_def)
  have b: "error_of (fst (snd (update_stage_status ext project w stage st err))) stage
           = (if truthy err then err else error_of project stage)"
    using assms by (rule update_stage_status_error)
  have c: "error_of project stage \<noteq> None \<longrightarrow>
            error_of (fst (snd (update_stage_status ext project w stage st err))) stage \<noteq> None"
    unfolding b by (auto simp: truthy_def split: option.splits)
  have d: "fst (execute_stage ext sd project w stage force) = Inr res \<and> success res \<longrightarrow>
            status_or_pending (fst (snd (execute_stage ext sd project w stage force))) stage = ''completed''
            \<and> error_of (fst (snd (execute_stage ext sd project w stage force))) stage
                = error_of project stage"
    using execute_stage_success [of ext sd project w stage force res] assms by blast
  from a b c d show ?thesis by blast
qed

text \<open>
  Keyword research failed (the script exited with 1) and is then forced to run again,
  with a script that succeeds: the stage is completed and still carries the error.
\<close>

theorem update_stage_status_keeps_error_witness:
  "status_or_pending failed_project ''keyword_research'' = ''failed''
   \<and> error_of failed_project ''keyword_research''
        = Some ''Error executing stage: Keyword research execution failed''
   \<and> fst (execute_stage demo_ext demo_scripts_dir failed_project failed_disk ''keyword_research'' True)
        = Inr (completed_result ''keyword_research'' kr_output_files)
   \<and> status_or_pending
        (fst (snd (execute_stage demo_ext demo_scripts_dir failed_project failed_disk
                     ''keyword_research'' True))) ''keyword_research'' = ''completed''
   \<and> error_of
        (fst (snd (execute_stage demo_ext demo_scripts_dir failed_project failed_disk
                     ''keyword_research'' True))) ''keyword_research''
        = Some ''Error executing stage: Keyword research execution failed''
   \<and> error_of (fst (snd (update_stage_status demo_ext failed_project failed_disk
                     ''keyword_research'' ''running'' None))) ''keyword_research''
        = Some ''Error executing stage: Keyword research execution failed''"
proof -
  have h: "has_stage failed_project ''keyword_research''"
    by (simp add: has_stage_def failed_project_def)
  have e: "error_of failed_project ''keyword_research''
        = Some ''Error executing stage: Keyword research execution failed''"
    by (simp add: error_of_def failed_project_def)
  have s: "status_or_pending failed_project ''keyword_research'' = ''failed''"
    by (simp add: status_or_pending_def failed_project_def)
  have ok: "success (completed_result ''keyword_research'' kr_output_files)"
    by (simp add: completed_result_def)
  from update_stage_status_keeps_error [OF h, of demo_ext failed_disk "''running''" None
         demo_scripts_dir True "completed_result ''keyword_research'' kr_output_files"]
       forced_run ok e s
  show ?thesis by simp
qed


section \<open>A stage that is already completed\<close>

lemma get_stage_files_truncate:
  "config_data.truncate (snd (get_stage_files p w stage)) = config_data.truncate p"
  by (simp add: get_stage_files_def get_project_path_def Let_def case_prod_beta config_data.defs
       split: option.splits sum.splits)

text \<open>
  The short cut of \<open>execute_stage\<close>. If the stage's status is completed, the call is made
  without force and listing the stage's directory does not raise, the call returns a
  success result, the world is returned as it was (nothing is written, no clock is
  read, no notification is sent, no executor is entered), and every persisted field of
  the project, the stage's \<open>completed_at\<close> among them, is as before. The outputs of the
  result are what \<open>get_stage_files\<close> returns, not the entry of \<open>output_files\<close>.
\<close>

lemma execute_stage_shortcut:
  assumes "stage_completed project stage"
    and "fst (get_stage_files project w stage) = Inr fls"
  shows "fst (execute_stage ext sd project w stage False)
           = Inr \<lparr>success = True, message = ''Stage '' @ stage @ '' already completed'',
                  outputs = Some fls, stdout = None, stderr = None\<rparr>
       \<and> snd (snd (execute_stage ext sd project w stage False)) = w
       \<and> invoked (snd (snd (execute_stage ext sd project w stage False))) = invoked w
       \<and> config_data.truncate (fst (snd (execute_stage ext sd project w stage False)))
           = config_data.truncate project
       \<and> completed_at_of (fst (snd (execute_stage ext sd project w stage False))) stage
           = completed_at_of project stage
       \<and> status_or_pending (fst (snd (execute_stage ext sd project w stage False))) stage
           = ''completed''"
proof -
  obtain p1 where g: "get_stage_files project w stage = (Inr fls, p1)"
    using assms(2) by (cases "get_stage_files project w stage") auto
  have p1: "p1 = snd (get_stage_files project w stage)" using g by simp
  have r: "execute_stage ext sd project w stage False
             = (Inr \<lparr>success = True, message = ''Stage '' @ stage @ '' already completed'',
                     outputs = Some fls, stdout = None, stderr = None\<rparr>, p1, w)"
    using assms(1) g by (simp add: execute_stage_def)
  have t: "config_data.truncate p1 = config_data.truncate project"
    unfolding p1 by (rule get_stage_files_truncate)
  have c: "completed_at_of p1 stage = completed_at_of project stage"
    unfolding p1 by simp
  have s: "status_or_pending p1 stage = ''completed''"
    unfolding p1 using assms(1) by (simp add: stage_completed_status)
  show ?thesis unfolding r using t c s by simp
qed

text \<open>
  The table of \<open>get_stage_files\<close> has the keys \<open>articles\<close> and \<open>youtube\<close> where the stages
  are named \<open>article_writing\<close> and \<open>youtube_scripts\<close>: for these two stages it returns the
  empty list, whatever the project and whatever their directories hold, and so does the
  short cut.
\<close>

lemma get_stage_files_article_writing:
  "get_stage_files project w ''article_writing'' = (Inr [], project)"
  by (simp add: get_stage_files_def stage_map_def)

lemma get_stage_files_youtube_scripts:
  "get_stage_files project w ''youtube_scripts'' = (Inr [], project)"
  by (simp add: get_stage_files_def stage_map_def)

lemma execute_stage_shortcut_article_writing:
  assumes "stage_completed project ''article_writing''"
  shows "execute_stage ext sd project w ''article_writing'' False
           = (Inr \<lparr>success = True, message = ''Stage article_writing already completed'',
                   outputs = Some [], stdout = None, stderr = None\<rparr>, project, w)"
  using assms by (simp add: execute_stage_def get_stage_files_article_writing)

lemma execute_stage_shortcut_youtube_scripts:
  assumes "stage_completed project ''youtube_scripts''"
  shows "execute_stage ext sd project w ''youtube_scripts'' False
           = (Inr \<lparr>success = True, message = ''Stage youtube_scripts already completed'',
                   outputs = Some [], stdout = None, stderr = None\<rparr>, project, w)"
  using assms by (simp add: execute_stage_def get_stage_files_youtube_scripts)

lemma listing_after_run2:
  "get_stage_files pipeline_project2 pipeline_disk2 ''content_briefs''
     = (Inr [''/app/projects/project-1234abcd-demo/stage_02_content_briefs/article_brief.md''],
        pipeline_project2)"
  by (simp add: get_stage_files_def stage_map_def pipeline_state_defs fs_defs project_defs Let_def)

text \<open>
  Claim C1. A call of \<open>execute_stage\<close> without force on a stage whose status is completed
  is to return a success result that carries the existing output manifest, without
  entering the stage's executor and with the stage's \<open>completed_at\<close> as it was. The code
  does not return the manifest. For the project \<open>Demo\<close>: the first run of content briefs
  returns the manifest entry \<open>output_files["content_briefs"]\<close>, one path relative to the
  project, and completes the stage; the project still holds that entry; the second call
  returns success, enters no executor and leaves project and world as they were, but
  its outputs are the listing of the stage's directory, one full path, which is not the
  manifest. (The directory holds one file, so the order of a listing plays no part.)
\<close>

theorem execute_stage_completed_not_manifest:
  "execute_stage demo_ext demo_scripts_dir pipeline_project1
     (notify_progress (project_id pipeline_project1) ''pipeline'' 20 ''Executing content_briefs''
        pipeline_disk1)
     ''content_briefs'' False
     = (Inr \<lparr>success = True, message = ''Stage content_briefs completed successfully'',
             outputs = Some [''stage_02_content_briefs/article_brief.md''],
             stdout = None, stderr = None\<rparr>,
        pipeline_project2, pipeline_disk2)
   \<and> stage_completed pipeline_project2 ''content_briefs''
   \<and> output_files_get pipeline_project2 ''content_briefs''
       = [''stage_02_content_briefs/article_brief.md'']
   \<and> execute_stage demo_ext demo_scripts_dir pipeline_project2 pipeline_disk2 ''content_briefs'' False
       = (Inr \<lparr>success = True, message = ''Stage content_briefs already completed'',
               outputs = Some
                 [''/app/projects/project-1234abcd-demo/stage_02_content_briefs/article_brief.md''],
               stdout = None, stderr = None\<rparr>,
          pipeline_project2, pipeline_disk2)
   \<and> outputs (projr (fst (execute_stage demo_ext demo_scripts_dir pipeline_project2 pipeline_disk2
                  ''content_briefs'' False)))
       \<noteq> Some (output_files_get pipeline_project2 ''content_briefs'')"
proof -
  have f: "execute_stage demo_ext demo_scripts_dir pipeline_project1
     (notify_progress (project_id pipeline_project1) ''pipeline'' 20 ''Executing content_briefs''
        pipeline_disk1)
     ''content_briefs'' False
     = (Inr \<lparr>success = True, message = ''Stage content_briefs completed successfully'',
             outputs = Some [''stage_02_content_briefs/article_brief.md''],
             stdout = None, stderr = None\<rparr>,
        pipeline_project2, pipeline_disk2)"
    by (simp add: pipeline_run2 completed_result_def)
  have c: "stage_completed pipeline_project2 ''content_briefs''"
    by (simp add: stage_completed_def pipeline_state_defs)
  have m: "output_files_get pipeline_project2 ''content_briefs''
       = [''stage_02_content_briefs/article_brief.md'']"
    by (simp add: output_files_get_def pipeline_state_defs)
  have r: "execute_stage demo_ext demo_scripts_dir pipeline_project2 pipeline_disk2 ''content_briefs'' False
       = (Inr \<lparr>success = True, message = ''Stage content_briefs already completed'',
               outputs = Some
                 [''/app/projects/project-1234abcd-demo/stage_02_content_briefs/article_brief.md''],
               stdout = None, stderr = None\<rparr>,
          pipeline_project2, pipeline_disk2)"
    using c by (simp add: execute_stage_def listing_after_run2)
  show ?thesis unfolding r m using f c by simp
qed


section \<open>Content briefs without keyword research\<close>

lemma path_exists_notify_progress [simp]:
  "path_exists (notify_progress pid stage pr msg w) q = path_exists w q"
  by (simp add: notify_progress_def fs_defs)

lemma path_exists_invoked [simp]:
  "path_exists (w\<lparr>invoked := x\<rparr>) q = path_exists w q"
  by (simp add: fs_defs)

lemma notified_notify_progress [simp]:
  "notified (notify_progress pid stage pr msg w) = notified w @ [(pid, stage, pr, msg)]"
  by (simp add: notify_progress_def)

lemma save_config_path:
  "project_path (fst (snd (save_config p w))) = Some (fst (get_project_path p [''projects'']))"
  by (simp add: save_config_def get_project_path_def Let_def case_prod_beta
       split: option.splits sum.splits)

lemma save_config_project_id [simp]:
  "project_id (fst (snd (save_config p w))) = project_id p"
  by (simp add: save_config_def get_project_path_def Let_def case_prod_beta
       split: option.splits sum.splits)

lemma save_config_notified [simp]:
  "notified (snd (snd (save_config p w))) = notified w"
  by (auto simp: save_config_def write_file_def Let_def case_prod_beta split: sum.splits if_splits)

lemma write_config_keeps_keyword_file:
  "write_file w (pp @ [''config.json'']) c = Inr w' \<Longrightarrow>
     path_exists w' (pp @ [''stage_01_keyword_research'', ''keyword_clusters.csv''])
       = path_exists w (pp @ [''stage_01_keyword_research'', ''keyword_clusters.csv''])"
  by (cases pp)
     (auto simp: write_file_def fs_defs Let_def update_conv' split: if_splits)

lemma save_config_keeps_keyword_file:
  "path_exists (snd (snd (save_config p w)))
       (fst (get_project_path p [''projects'']) @ [''stage_01_keyword_research'', ''keyword_clusters.csv''])
     = path_exists w
       (fst (get_project_path p [''projects'']) @ [''stage_01_keyword_research'', ''keyword_clusters.csv''])"
  by (simp add: save_config_def Let_def case_prod_beta write_config_keeps_keyword_file
       split: sum.splits)

lemma get_project_path_status_update [simp]:
  "fst (get_project_path (q\<lparr>execution_status := a, updated_at := b\<rparr>) base)
     = fst (get_project_path q base)"
  by (simp add: get_project_path_def project_folder_name_def slug_def Let_def split: option.splits)

lemma path_exists_ticks [simp]:
  "path_exists (v\<lparr>ticks := n\<rparr>) q = path_exists v q"
  by (simp add: fs_defs)

lemma update_stage_status_path:
  "has_stage p stage \<Longrightarrow>
     project_path (fst (snd (update_stage_status ext p w stage st err)))
       = Some (fst (get_project_path p [''projects'']))"
  by (auto simp: has_stage_def update_stage_status_def save_config_path Let_def case_prod_beta)

lemma update_stage_status_project_id [simp]:
  "project_id (fst (snd (update_stage_status ext p w stage st err))) = project_id p"
  by (simp add: update_stage_status_def Let_def case_prod_beta split: option.splits)

lemma update_stage_status_notified [simp]:
  "notified (snd (snd (update_stage_status ext p w stage st err))) = notified w"
  by (simp add: update_stage_status_def Let_def case_prod_beta now_def split: option.splits)

lemma update_stage_status_keeps_keyword_file:
  "path_exists (snd (snd (update_stage_status ext p w stage st err)))
       (fst (get_project_path p [''projects'']) @ [''stage_01_keyword_research'', ''keyword_clusters.csv''])
     = path_exists w
       (fst (get_project_path p [''projects'']) @ [''stage_01_keyword_research'', ''keyword_clusters.csv''])"
  using save_config_keeps_keyword_file
    [of "q\<lparr>execution_status := a, updated_at := b\<rparr>" for q a b]
  by (simp add: update_stage_status_def Let_def case_prod_beta now_def split: option.splits)


text \<open>
  Claim C7, as the code has it. On a project that has the stage content briefs, not
  completed (or with force), whose keyword research has not completed and whose
  directory holds no \<open>stage_01_keyword_research/keyword_clusters.csv\<close>,
  \<open>execute_stage\<close> for content briefs returns a failure result with the message
  \<open>Error executing stage: Article brief generation failed\<close>, which does not mention
  \<open>keyword_research\<close>, and marks the stage failed with that error. The dependency is
  named elsewhere: by the progress notification -1 that is sent on the way and by the
  reason of \<open>can_execute_stage\<close>.
\<close>

theorem content_briefs_without_keyword_file:
  assumes hs: "has_stage project ''content_briefs''"
    and nc: "\<not> stage_completed project ''content_briefs'' \<or> force"
    and pending: "status_or_pending project ''keyword_research'' \<noteq> ''completed''"
    and absent: "\<not> path_exists w
                   (fst (get_project_path project [''projects''])
                      @ [''stage_01_keyword_research'', ''keyword_clusters.csv''])"
  shows "fst (execute_stage ext sd project w ''content_briefs'' force)
           = Inr (failed_result ''Error executing stage: Article brief generation failed'')
       \<and> \<not> is_substring ''keyword_research''
             (message (failed_result ''Error executing stage: Article brief generation failed''))
       \<and> status_or_pending (fst (snd (execute_stage ext sd project w ''content_briefs'' force)))
             ''content_briefs'' = ''failed''
       \<and> error_of (fst (snd (execute_stage ext sd project w ''content_briefs'' force)))
             ''content_briefs'' = Some ''Error executing stage: Article brief generation failed''
       \<and> (project_id project, ''content_briefs'', - 1, ''Keyword research must be completed first'')
             \<in> set (notified (snd (snd (execute_stage ext sd project w ''content_briefs'' force))))
       \<and> can_execute_stage project ''content_briefs''
           = (False, ''Dependency keyword_research not completed (status: ''
                       @ status_or_pending project ''keyword_research'' @ '')'')"
proof -
  define p1 where "p1 = fst (snd (update_stage_status ext project w ''content_briefs'' ''running'' None))"
  define w1 where "w1 = snd (snd (update_stage_status ext project w ''content_briefs'' ''running'' None))"
  define w2 where "w2 = notify_progress (project_id p1) ''content_briefs'' 0 ''Starting stage execution'' w1"
  define W where "W = notify_progress (project_id p1) ''content_briefs'' (- 1)
                        ''Keyword research must be completed first''
                        (notify_progress (project_id p1) ''content_briefs'' 10
                           ''Setting up article brief generation...''
                           (w2\<lparr>invoked := invoked w2 @ [''content_briefs'']\<rparr>))"
  have pp: "project_path p1 = Some (fst (get_project_path project [''projects'']))"
    unfolding p1_def using hs by (rule update_stage_status_path)
  have pid: "project_id p1 = project_id project"
    unfolding p1_def by simp
  have gone: "\<not> path_exists w1 (fst (get_project_path project [''projects''])
                      @ [''stage_01_keyword_research'', ''keyword_clusters.csv''])"
    unfolding w1_def using absent by (simp add: update_stage_status_keeps_keyword_file)
  have brief: "execute_article_brief ext p1 (notify_progress (project_id p1) ''content_briefs'')
                 (w2\<lparr>invoked := invoked w2 @ [''content_briefs'']\<rparr>) = (False, p1, W)"
    using gone by (simp add: execute_article_brief_def article_brief_body_def pp W_def w2_def Let_def)
  have body: "stage_body ext sd p1 w2 ''content_briefs''
                = (Inl (PyException ''Article brief generation failed''), p1, W)"
    by (simp add: stage_body_def brief Let_def)
  have msg: "handler_message (PyException ''Article brief generation failed'')
               = ''Error executing stage: Article brief generation failed''"
    by (simp add: handler_message_def)
  have run: "execute_stage ext sd project w ''content_briefs'' force
               = (Inr (failed_result ''Error executing stage: Article brief generation failed''),
                  fst (snd (update_stage_status ext p1 W ''content_briefs'' ''failed''
                              (Some ''Error executing stage: Article brief generation failed''))),
                  snd (snd (update_stage_status ext p1 W ''content_briefs'' ''failed''
                              (Some ''Error executing stage: Article brief generation failed''))))"
  proof -
    have neg: "(stage_completed project ''content_briefs'' \<and> \<not> force) = False"
      using nc by blast
    show ?thesis
      unfolding execute_stage_def neg
      using body msg
      by (simp add: Let_def case_prod_beta p1_def [symmetric] w1_def [symmetric]
            w2_def [symmetric])
  qed
  have h1: "has_stage p1 ''content_briefs''"
    unfolding p1_def using hs by simp
  have a: "\<not> is_substring ''keyword_research''
             (message (failed_result ''Error executing stage: Article brief generation failed''))"
    by (simp add: failed_result_def)
  have b: "status_or_pending (fst (snd (execute_stage ext sd project w ''content_briefs'' force)))
             ''content_briefs'' = ''failed''"
    unfolding run using h1 by (simp add: update_stage_status_status)
  have c: "error_of (fst (snd (execute_stage ext sd project w ''content_briefs'' force)))
             ''content_briefs'' = Some ''Error executing stage: Article brief generation failed''"
    unfolding run using h1 by (simp add: update_stage_status_error truthy_def)
  have d: "(project_id project, ''content_briefs'', - 1, ''Keyword research must be completed first'')
             \<in> set (notified (snd (snd (execute_stage ext sd project w ''content_briefs'' force))))"
    unfolding run by (simp add: W_def pid)
  have e: "can_execute_stage project ''content_briefs''
           = (False, ''Dependency keyword_research not completed (status: ''
                       @ status_or_pending project ''keyword_research'' @ '')'')"
    using pending
    by (simp add: can_execute_stage_def dependencies_of_def stage_dependencies_def Let_def)
  from run a b c d e show ?thesis by simp
qed

lemma pipeline_project_paths:
  "fst (get_project_path pipeline_project [''projects'']) = pipeline_dir"
  by (simp add: get_project_path_def pipeline_project_def)

text \<open>The project \<open>Demo\<close>, just created, is asked for its content briefs.\<close>

theorem content_briefs_without_keyword_file_witness:
  "fst (execute_stage demo_ext demo_scripts_dir pipeline_project pipeline_disk0 ''content_briefs'' False)
     = Inr (failed_result ''Error executing stage: Article brief generation failed'')
   \<and> status_or_pending
        (fst (snd (execute_stage demo_ext demo_scripts_dir pipeline_project pipeline_disk0
                     ''content_briefs'' False))) ''content_briefs'' = ''failed''
   \<and> (demo_pid, ''content_briefs'', - 1, ''Keyword research must be completed first'')
        \<in> set (notified (snd (snd (execute_stage demo_ext demo_scripts_dir pipeline_project pipeline_disk0
                     ''content_briefs'' False))))
   \<and> can_execute_stage pipeline_project ''content_briefs''
        = (False, ''Dependency keyword_research not completed (status: pending)'')"
proof -
  have hs: "has_stage pipeline_project ''content_briefs''"
    by (simp add: has_stage_def pipeline_state_defs default_execution_status_def)
  have nc: "\<not> stage_completed pipeline_project ''content_briefs'' \<or> False"
    by (simp add: stage_completed_def pipeline_state_defs default_execution_status_def pending_status_def)
  have st: "status_or_pending pipeline_project ''keyword_research'' = ''pending''"
    by (simp add: status_or_pending_def pipeline_state_defs default_execution_status_def pending_status_def)
  then have pending: "status_or_pending pipeline_project ''keyword_research'' \<noteq> ''completed''"
    by simp
  have absent: "\<not> path_exists pipeline_disk0
                   (fst (get_project_path pipeline_project [''projects''])
                      @ [''stage_01_keyword_research'', ''keyword_clusters.csv''])"
    unfolding pipeline_project_paths
    by (simp add: pipeline_disk0_def pipeline_disk_def pipeline_dir_def fs_defs)
  have pid: "project_id pipeline_project = demo_pid"
    by (simp add: pipeline_state_defs)
  from content_briefs_without_keyword_file [OF hs nc pending absent, of demo_ext demo_scripts_dir]
  show ?thesis by (simp add: pid st)
qed

text \<open>
  The claim as stated fails there: the project is as \<open>create_project\<close> returned it,
  keyword research is pending, and the message of the failure does not mention
  \<open>keyword_research\<close>.
\<close>

theorem content_briefs_message_counterexample:
  "create_project demo_ext pipeline_manager pipeline_world ''Demo'' ''A demo'' (Some [''a'', ''b'']) None
     = (Inr pipeline_project,
        pipeline_manager\<lparr>project_cache := [(demo_pid, pipeline_project)]\<rparr>,
        pipeline_disk0)
   \<and> status_or_pending pipeline_project ''keyword_research'' = ''pending''
   \<and> fst (execute_stage demo_ext demo_scripts_dir pipeline_project pipeline_disk0 ''content_briefs'' False)
       = Inr \<lparr>success = False, message = ''Error executing stage: Article brief generation failed'',
              outputs = None, stdout = None, stderr = None\<rparr>
   \<and> \<not> is_substring ''keyword_research'' ''Error executing stage: Article brief generation failed''"
proof -
  have st: "status_or_pending pipeline_project ''keyword_research'' = ''pending''"
    by (simp add: status_or_pending_def pipeline_state_defs default_execution_status_def pending_status_def)
  have r: "fst (execute_stage demo_ext demo_scripts_dir pipeline_project pipeline_disk0 ''content_briefs'' False)
       = Inr \<lparr>success = False, message = ''Error executing stage: Article brief generation failed'',
              outputs = None, stdout = None, stderr = None\<rparr>"
    by (simp add: stage_defs pipeline_state_defs fs_defs project_defs demo_defs Let_def funpow_numeral)
  have n: "\<not> is_substring ''keyword_research'' ''Error executing stage: Article brief generation failed''"
    by simp
  from pipeline_created st r n show ?thesis by simp
qed


end
